theory Spec2Isabelle
  imports Main "HOL-Library.Sublist"
begin

section \<open>Data model of main.go\<close>

text \<open>
  Go strings are byte sequences: \<open>len\<close> counts bytes and \<open>s[:n]\<close> slices bytes.
  They are modelled as \<open>string\<close> (a list of 8-bit \<open>char\<close>), so \<open>length\<close> is
  Go's \<open>len\<close> and \<open>take\<close> is Go's slice.  An \<open>error\<close> is its message.
\<close>

type_synonym error = string

record Item =
  Title :: string
  Link :: string
  Description :: string
  PubDate :: string
  GUID :: string

record Channel =
  Channel_Title :: string
  Channel_Link :: string
  Channel_Description :: string
  Items :: "Item list"

record RSS =
  Channel :: Channel

text \<open>
  \<open>FeedState\<close>: the feed URL and the map from identities to the seen marker.  The
  mutex has no content of its own; every poller owns its state and the model runs one
  poller, so the lock is not modelled.
\<close>

record FeedState =
  url :: string
  items :: "string \<rightharpoonup> bool"

text \<open>Reading a Go map of booleans: a missing key reads as \<open>false\<close>.\<close>

definition items_get :: "(string \<rightharpoonup> bool) \<Rightarrow> string \<Rightarrow> bool" where
  "items_get m k = (case m k of None \<Rightarrow> False | Some b \<Rightarrow> b)"

record DiffbotArticle =
  Article_Title :: string
  Article_Text :: string
  Article_HTML :: string
  Article_Date :: string

record DiffbotResponse =
  Objects :: "DiffbotArticle list"

record Message =
  Role :: string
  Content :: string

record OpenAIRequest =
  Model :: string
  Messages :: "Message list"

record Choice =
  Choice_Message :: Message

record OpenAIResponse =
  Choices :: "Choice list"

text \<open>
  An HTTP response as the program reads it: the status code, the status line and the
  outcome of \<open>io.ReadAll(resp.Body)\<close> (a read error or the bytes).
\<close>

record HTTPResponse =
  StatusCode :: int
  Status :: string
  Body :: "error + string"

record HTTPRequest =
  Method :: string
  Request_URL :: string
  Request_Body :: string
  Header :: "(string \<times> string) list"

record URL =
  Host :: string

text \<open>
  The character sets of \<open>golang.org/x/text/encoding/charmap\<close> that the program names,
  and an \<open>io.Reader\<close>: the bytes of \<open>bytes.NewReader\<close>, or a reader wrapped by
  \<open>transform.NewReader\<close> with a decoder.
\<close>

datatype charmap =
  Windows1251 | Windows1252 | ISO8859_1 | ISO8859_2 | ISO8859_5 | ISO8859_15 | KOI8R | KOI8U

datatype io_Reader = BytesReader string | TransformReader io_Reader charmap

text \<open>
  The package variables set once by \<open>main\<close> from the flags: \<open>fullOutput\<close>,
  \<open>authored\<close>, \<open>maxLength\<close> (a Go \<open>int\<close> from \<open>flag.Int\<close>, so it may be
  negative) and \<open>focus\<close>.
\<close>

record config =
  fullOutput :: bool
  authored :: bool
  maxLength :: int
  focus :: string

text \<open>
  A \<open>time.Location\<close>: the zones the location has had, each with its abbreviation and
  its offset from UTC in seconds, in the order of the zone table, and the zone in effect at
  a Unix time (which the library finds through the table of transitions).
\<close>

record Location =
  Location_zone :: "(string \<times> int) list"
  Location_lookup :: "int \<Rightarrow> string \<times> int"

text \<open>
  Everything the program obtains from outside itself, as it stands during one call: the
  environment, the network, and the library calls that are not modelled byte by byte
  (XML and JSON decoding, the template engine, URL parsing and escaping, Unicode case
  mapping of non-ASCII text, the clock and \<open>time.Local\<close>, the time zone of the process).  Each fallible call returns \<open>Inl\<close> of the error
  or \<open>Inr\<close> of the value.
\<close>

record world =
  getenv :: "string \<Rightarrow> string"
  client_Get :: "string \<Rightarrow> error + HTTPResponse"
  xml_Decode :: "(string \<Rightarrow> io_Reader \<Rightarrow> error + io_Reader) \<Rightarrow> io_Reader \<Rightarrow> error + RSS"
  json_Unmarshal_Diffbot :: "string \<Rightarrow> error + DiffbotResponse"
  json_Unmarshal_OpenAI :: "string \<Rightarrow> error + OpenAIResponse"
  json_Marshal :: "OpenAIRequest \<Rightarrow> error + string"
  embeddedPrompt :: string
  template_Parse :: "string \<Rightarrow> error + (string \<Rightarrow> string \<Rightarrow> error + string)"
  http_NewRequest :: "string \<Rightarrow> string \<Rightarrow> string \<Rightarrow> error + HTTPRequest"
  http_Do :: "HTTPRequest \<Rightarrow> error + HTTPResponse"
  url_QueryEscape :: "string \<Rightarrow> string"
  url_Parse :: "string \<Rightarrow> error + URL"
  unicode_ToLower :: "string \<Rightarrow> string"
  time_Now :: string
  time_Local :: Location

section \<open>Library functions on byte strings\<close>

text \<open>
  \<open>strings.HasPrefix\<close>, \<open>strings.TrimPrefix\<close> and \<open>strings.Count\<close> with a
  one-byte separator.
\<close>

definition HasPrefix :: "string \<Rightarrow> string \<Rightarrow> bool" where
  "HasPrefix s p = prefix p s"

definition TrimPrefix :: "string \<Rightarrow> string \<Rightarrow> string" where
  "TrimPrefix s p = (if HasPrefix s p then drop (length p) s else s)"

definition Count_byte :: "string \<Rightarrow> char \<Rightarrow> nat" where
  "Count_byte s c = length (filter (\<lambda>x. x = c) s)"

text \<open>
  \<open>strings.TrimSpace\<close> removes leading and trailing Unicode white space, as
  \<open>unicode.IsSpace\<close> defines it: the ASCII bytes \<open>\t \n \v \f \r\<close> and space, and the
  code points U+0085, U+00A0, U+1680, U+2000 to U+200A, U+2028, U+2029, U+202F, U+205F and
  U+3000.  On a byte string that is the removal of their UTF-8 encodings, listed in
  \<open>space_encodings\<close>: an invalid or truncated sequence decodes to U+FFFD, which is not
  white space, so trimming stops there.
\<close>

definition space_encodings :: "string list" where
  "space_encodings =
     [[CHR 0x09], [CHR 0x0A], [CHR 0x0B], [CHR 0x0C], [CHR 0x0D], [CHR 0x20],
      [CHR 0xC2, CHR 0x85], [CHR 0xC2, CHR 0xA0],
      [CHR 0xE1, CHR 0x9A, CHR 0x80],
      [CHR 0xE2, CHR 0x80, CHR 0x80], [CHR 0xE2, CHR 0x80, CHR 0x81],
      [CHR 0xE2, CHR 0x80, CHR 0x82], [CHR 0xE2, CHR 0x80, CHR 0x83],
      [CHR 0xE2, CHR 0x80, CHR 0x84], [CHR 0xE2, CHR 0x80, CHR 0x85],
      [CHR 0xE2, CHR 0x80, CHR 0x86], [CHR 0xE2, CHR 0x80, CHR 0x87],
      [CHR 0xE2, CHR 0x80, CHR 0x88], [CHR 0xE2, CHR 0x80, CHR 0x89],
      [CHR 0xE2, CHR 0x80, CHR 0x8A],
      [CHR 0xE2, CHR 0x80, CHR 0xA8], [CHR 0xE2, CHR 0x80, CHR 0xA9],
      [CHR 0xE2, CHR 0x80, CHR 0xAF], [CHR 0xE2, CHR 0x81, CHR 0x9F],
      [CHR 0xE3, CHR 0x80, CHR 0x80]]"

definition leading_space :: "string \<Rightarrow> nat" where
  "leading_space s = (case find (\<lambda>e. prefix e s) space_encodings of None \<Rightarrow> 0 | Some e \<Rightarrow> length e)"

definition trailing_space :: "string \<Rightarrow> nat" where
  "trailing_space s = (case find (\<lambda>e. suffix e s) space_encodings of None \<Rightarrow> 0 | Some e \<Rightarrow> length e)"

lemma leading_space_le: "leading_space s \<le> length s"
  by (auto simp: leading_space_def find_Some_iff prefix_length_le split: option.splits)

lemma trailing_space_le: "trailing_space s \<le> length s"
  by (auto simp: trailing_space_def find_Some_iff suffix_length_le split: option.splits)

function TrimLeft :: "string \<Rightarrow> string" where
  "TrimLeft s = (if leading_space s = 0 then s else TrimLeft (drop (leading_space s) s))"
  by pat_completeness auto
termination
proof (relation "measure length")
  fix s :: string assume "leading_space s \<noteq> 0"
  moreover have "leading_space s \<le> length s" by (rule leading_space_le)
  ultimately show "(drop (leading_space s) s, s) \<in> measure length" by simp
qed simp

function TrimRight :: "string \<Rightarrow> string" where
  "TrimRight s = (if trailing_space s = 0 then s else TrimRight (take (length s - trailing_space s) s))"
  by pat_completeness auto
termination
proof (relation "measure length")
  fix s :: string assume "trailing_space s \<noteq> 0"
  moreover have "trailing_space s \<le> length s" by (rule trailing_space_le)
  ultimately show "(take (length s - trailing_space s) s, s) \<in> measure length" by simp
qed simp

declare TrimLeft.simps [simp del] TrimRight.simps [simp del]

definition TrimSpace :: "string \<Rightarrow> string" where
  "TrimSpace s = TrimRight (TrimLeft s)"

text \<open>
  \<open>strings.ToLower\<close>: a string of ASCII bytes only is lowered byte by byte; any other
  string goes through \<open>unicode.ToLower\<close> rune by rune, which is a parameter here (the
  Unicode case tables are not modelled).
\<close>

definition isUpper :: "char \<Rightarrow> bool" where
  "isUpper c \<longleftrightarrow> 65 \<le> (of_char c :: nat) \<and> (of_char c :: nat) \<le> 90"

definition ascii_lower :: "char \<Rightarrow> char" where
  "ascii_lower c = (if isUpper c then char_of ((of_char c :: nat) + 32) else c)"

definition ToLower :: "(string \<Rightarrow> string) \<Rightarrow> string \<Rightarrow> string" where
  "ToLower unicode_lower s =
     (if list_all (\<lambda>c. (of_char c :: nat) < 128) s then map ascii_lower s else unicode_lower s)"

section \<open>The regular expressions of the program\<close>

text \<open>
  The program uses \<open>regexp\<close> with fixed patterns only.  Each is modelled by the scanner
  that computes the same leftmost matches on bytes:
  \<^item> \<open>(?s)<tag[^>]*>(.*?)</tag>\<close>: at a position that starts with \<open><tag\<close>, the
    class \<open>[^>]*\<close> runs to the first \<open>>\<close> after it and the lazy \<open>.*?\<close> to the
    first closing tag after that (\<open>match_block\<close>); a position where either is missing
    does not match and the scan moves one byte on;
  \<^item> \<open><[^>]*>\<close>: a \<open><\<close> up to the first \<open>>\<close> after it (\<open>replaceTags\<close>);
  \<^item> \<open>\s+\<close>: a run of the bytes \<open>\t \n \f \r\<close> and space (\<open>collapseSpaces\<close>).
  \<open>split_at_first sep s\<close> cuts \<open>s\<close> around the first occurrence of \<open>sep\<close>.
\<close>

fun split_at_first :: "string \<Rightarrow> string \<Rightarrow> (string \<times> string) option" where
  "split_at_first sep [] = (if sep = [] then Some ([], []) else None)"
| "split_at_first sep (c # cs) =
     (if prefix sep (c # cs) then Some ([], drop (length sep) (c # cs))
      else map_option (\<lambda>(b, a). (c # b, a)) (split_at_first sep cs))"

lemma split_at_first_length:
  "split_at_first sep s = Some (b, a) \<Longrightarrow> length a \<le> length s"
  by (induction s arbitrary: b) (auto split: if_splits)

definition match_open :: "string \<Rightarrow> string \<Rightarrow> string option" where
  "match_open tag s =
     (if prefix (CHR ''<'' # tag) s
      then map_option snd (split_at_first ''>'' (drop (Suc (length tag)) s))
      else None)"

definition match_block :: "string \<Rightarrow> string \<Rightarrow> (string \<times> string) option" where
  "match_block tag s =
     (case match_open tag s of
        None \<Rightarrow> None
      | Some rest \<Rightarrow> split_at_first (''</'' @ tag @ ''>'') rest)"

lemma match_open_length: "match_open tag s = Some r \<Longrightarrow> length r < length s"
  by (auto simp: match_open_def prefix_def split: if_splits dest!: split_at_first_length)

lemma match_block_length: "match_block tag s = Some (inner, r) \<Longrightarrow> length r < length s"
  by (auto simp: match_block_def split: option.splits
      dest!: match_open_length split_at_first_length)

function removeBlocks :: "string \<Rightarrow> string \<Rightarrow> string" where
  "removeBlocks tag [] = []"
| "removeBlocks tag (c # cs) =
     (case match_block tag (c # cs) of
        Some (inner, rest) \<Rightarrow> removeBlocks tag rest
      | None \<Rightarrow> c # removeBlocks tag cs)"
  by pat_completeness auto
termination
  by (relation "measure (\<lambda>(tag, s). length s)") (auto dest: match_block_length)

function findAllBlocks :: "string \<Rightarrow> string \<Rightarrow> string list" where
  "findAllBlocks tag [] = []"
| "findAllBlocks tag (c # cs) =
     (case match_block tag (c # cs) of
        Some (inner, rest) \<Rightarrow> inner # findAllBlocks tag rest
      | None \<Rightarrow> findAllBlocks tag cs)"
  by pat_completeness auto
termination
  by (relation "measure (\<lambda>(tag, s). length s)") (auto dest: match_block_length)

fun findFirstBlock :: "string \<Rightarrow> string \<Rightarrow> string option" where
  "findFirstBlock tag [] = None"
| "findFirstBlock tag (c # cs) =
     (case match_block tag (c # cs) of
        Some (inner, rest) \<Rightarrow> Some inner
      | None \<Rightarrow> findFirstBlock tag cs)"

function replaceTags :: "string \<Rightarrow> string \<Rightarrow> string" where
  "replaceTags repl [] = []"
| "replaceTags repl (c # cs) =
     (if c = CHR ''<'' then
        (case split_at_first ''>'' cs of
           Some (inside, rest) \<Rightarrow> repl @ replaceTags repl rest
         | None \<Rightarrow> c # replaceTags repl cs)
      else c # replaceTags repl cs)"
  by pat_completeness auto
termination
  by (relation "measure (\<lambda>(repl, s). length s)") (auto dest!: split_at_first_length)

definition is_regexp_space :: "char \<Rightarrow> bool" where
  "is_regexp_space c \<longleftrightarrow> c \<in> {CHR 0x09, CHR 0x0A, CHR 0x0C, CHR 0x0D, CHR 0x20}"

function collapseSpaces :: "string \<Rightarrow> string" where
  "collapseSpaces [] = []"
| "collapseSpaces (c # cs) =
     (if is_regexp_space c then CHR '' '' # collapseSpaces (dropWhile is_regexp_space cs)
      else c # collapseSpaces cs)"
  by pat_completeness auto
termination
  by (relation "measure length") (auto simp: length_dropWhile_le less_Suc_eq_le)

text \<open>\<open>strip\<close>: remove every tag, then trim.\<close>

definition strip :: "string \<Rightarrow> string" where
  "strip text = TrimSpace (replaceTags [] text)"

section \<open>Date normalisation\<close>

text \<open>
  \<open>parseDate\<close> calls \<open>time.Parse\<close> of the Go standard library with nine layouts and
  formats the first successful result with the layout \<open>02-01-2006\<close>.  \<open>time.Parse\<close> is
  modelled for the layout elements these layouts contain; a layout is given as the list of
  elements and literal texts that the library cuts the layout string into.  The helper
  functions keep the library's names (\<open>skip\<close>, \<open>getnum\<close>, \<open>atoi\<close>, \<open>lookup\<close>,
  \<open>parseTimeZone\<close>, \<open>parseGMT\<close>, \<open>parseSignedOffset\<close>, \<open>daysIn\<close>, \<open>lookupName\<close>).
  The time zone of the process, \<open>time.Local\<close>, is a parameter: the library resolves a
  zone abbreviation against it, and shows a time so resolved in the local zone.
\<close>

definition isDigit :: "char \<Rightarrow> bool" where
  "isDigit c \<longleftrightarrow> 48 \<le> (of_char c :: nat) \<and> (of_char c :: nat) \<le> 57"

definition digit_value :: "char \<Rightarrow> int" where
  "digit_value c = int (of_char c) - 48"

definition leadingInt :: "string \<Rightarrow> int \<times> string" where
  "leadingInt s =
     (foldl (\<lambda>x c. x * 10 + digit_value c) 0 (takeWhile isDigit s), dropWhile isDigit s)"

definition atoi :: "string \<Rightarrow> int option" where
  "atoi s0 =
     (let neg = (s0 \<noteq> [] \<and> hd s0 = CHR ''-'');
          s = (if s0 \<noteq> [] \<and> (hd s0 = CHR ''-'' \<or> hd s0 = CHR ''+'') then tl s0 else s0);
          (q, rem) = leadingInt s
      in if rem \<noteq> [] then None else Some (if neg then - q else q))"

definition getnum :: "string \<Rightarrow> bool \<Rightarrow> (int \<times> string) option" where
  "getnum s fixed =
     (case s of
        [] \<Rightarrow> None
      | c0 # r0 \<Rightarrow>
          if \<not> isDigit c0 then None
          else (case r0 of
                  [] \<Rightarrow> if fixed then None else Some (digit_value c0, r0)
                | c1 # r1 \<Rightarrow>
                    if \<not> isDigit c1 then (if fixed then None else Some (digit_value c0, r0))
                    else Some (digit_value c0 * 10 + digit_value c1, r1)))"

definition cutspace :: "string \<Rightarrow> string" where
  "cutspace s = dropWhile (\<lambda>c. c = CHR '' '') s"

function skip :: "string \<Rightarrow> string \<Rightarrow> string option" where
  "skip val [] = Some val"
| "skip val (p # ps) =
     (if p = CHR '' '' then
        (if val \<noteq> [] \<and> hd val \<noteq> CHR '' '' then None
         else skip (cutspace val) (cutspace ps))
      else (case val of
              [] \<Rightarrow> None
            | v # vs \<Rightarrow> if v \<noteq> p then None else skip vs ps))"
  by pat_completeness auto
termination
  by (relation "measure (\<lambda>(val, pre). length pre)")
     (auto simp: cutspace_def length_dropWhile_le less_Suc_eq_le)

definition lower_bit :: "char \<Rightarrow> char" where
  "lower_bit c = (if ((of_char c :: nat) div 32) mod 2 = 0 then char_of ((of_char c :: nat) + 32) else c)"

definition match_fold :: "string \<Rightarrow> string \<Rightarrow> bool" where
  "match_fold s1 s2 \<longleftrightarrow>
     list_all2 (\<lambda>c1 c2. c1 = c2 \<or>
        (lower_bit c1 = lower_bit c2 \<and> 97 \<le> (of_char (lower_bit c1) :: nat)
           \<and> (of_char (lower_bit c1) :: nat) \<le> 122)) s1 s2"

fun lookup_from :: "int \<Rightarrow> string list \<Rightarrow> string \<Rightarrow> (int \<times> string) option" where
  "lookup_from i [] val = None"
| "lookup_from i (v # tab) val =
     (if length val \<ge> length v \<and> match_fold (take (length v) val) v
      then Some (i, drop (length v) val)
      else lookup_from (i + 1) tab val)"

definition lookup :: "string list \<Rightarrow> string \<Rightarrow> (int \<times> string) option" where
  "lookup tab val = lookup_from 0 tab val"

definition shortDayNames :: "string list" where
  "shortDayNames = [''Sun'', ''Mon'', ''Tue'', ''Wed'', ''Thu'', ''Fri'', ''Sat'']"

definition shortMonthNames :: "string list" where
  "shortMonthNames = [''Jan'', ''Feb'', ''Mar'', ''Apr'', ''May'', ''Jun'',
                      ''Jul'', ''Aug'', ''Sep'', ''Oct'', ''Nov'', ''Dec'']"

definition parseSignedOffset :: "string \<Rightarrow> nat" where
  "parseSignedOffset val =
     (case val of
        [] \<Rightarrow> 0
      | sign # ds \<Rightarrow>
          if sign \<noteq> CHR ''-'' \<and> sign \<noteq> CHR ''+'' then 0
          else (let (x, rem) = leadingInt ds
                in if ds = rem then 0 else if x > 23 then 0
                   else length val - length rem))"

definition parseGMT :: "string \<Rightarrow> nat" where
  "parseGMT val = (let v = drop 3 val in if v = [] then 3 else 3 + parseSignedOffset v)"

definition parseTimeZone :: "string \<Rightarrow> nat option" where
  "parseTimeZone val =
     (if length val < 3 then None
      else if length val \<ge> 4 \<and> (take 4 val = ''ChST'' \<or> take 4 val = ''MeST'') then Some 4
      else if take 3 val = ''GMT'' then Some (parseGMT val)
      else if hd val = CHR ''+'' \<or> hd val = CHR ''-'' then
        (let n = parseSignedOffset val in if n > 0 then Some n else None)
      else (let nUpper = length (takeWhile isUpper (take 6 val))
            in if nUpper = 5 then (if val ! 4 = CHR ''T'' then Some 5 else None)
               else if nUpper = 4 then
                 (if val ! 3 = CHR ''T'' \<or> take 4 val = ''WITA'' then Some 4 else None)
               else if nUpper = 3 then Some 3
               else None))"

definition isLeap :: "int \<Rightarrow> bool" where
  "isLeap y \<longleftrightarrow> y mod 4 = 0 \<and> (y mod 100 \<noteq> 0 \<or> y mod 400 = 0)"

definition daysIn :: "int \<Rightarrow> int \<Rightarrow> int" where
  "daysIn m y =
     (if m = 2 then (if isLeap y then 29 else 28)
      else if m = 4 \<or> m = 6 \<or> m = 9 \<or> m = 11 then 30
      else 31)"

text \<open>
  The values that \<open>time.Parse\<close> collects while it reads: the fields of the date and
  time, and the zone as the library keeps it, in \<open>z\<close> (set to UTC, here a flag),
  \<open>zoneOffset\<close> (seconds, \<open>-1\<close> when unset) and \<open>zoneName\<close>.
\<close>

record parsed =
  Year :: int
  Month :: int
  Day :: int
  Hour :: int
  Minute :: int
  Second :: int
  z_UTC :: bool
  zoneOffset :: int
  zoneName :: string

datatype chunk =
    Lit string
  | stdLongYear | stdYear | stdMonth | stdZeroMonth | stdWeekDay | stdDay | stdZeroDay
  | stdHour | stdZeroMinute | stdZeroSecond | stdTZ | stdNumTZ | stdISO8601ColonTZ

definition skip_fraction :: "string \<Rightarrow> string" where
  "skip_fraction val =
     (case val of
        c # d # rest \<Rightarrow>
          if (c = CHR ''.'' \<or> c = CHR '','') \<and> isDigit d then dropWhile isDigit rest else val
      | _ \<Rightarrow> val)"

text \<open>
  A numeric zone: sign, two digits of hours and two of minutes; the result is the offset
  in seconds.
\<close>

definition parse_offset :: "string \<Rightarrow> string \<Rightarrow> string \<Rightarrow> int option" where
  "parse_offset sign hh mm =
     (case (getnum hh True, getnum mm True) of
        (Some (hr, _), Some (mn, _)) \<Rightarrow>
          if hr > 24 \<or> mn > 60 then None
          else if sign = ''+'' then Some ((hr * 60 + mn) * 60)
          else if sign = ''-'' then Some (- ((hr * 60 + mn) * 60))
          else None
      | _ \<Rightarrow> None)"

fun parse_chunks :: "chunk list \<Rightarrow> string \<Rightarrow> parsed \<Rightarrow> parsed option" where
  "parse_chunks [] val t = (if val = [] then Some t else None)"
| "parse_chunks (Lit p # cs) val t =
     (case skip val p of None \<Rightarrow> None | Some v \<Rightarrow> parse_chunks cs v t)"
| "parse_chunks (stdYear # cs) val t =
     (if length val < 2 then None
      else (case atoi (take 2 val) of
              None \<Rightarrow> None
            | Some y \<Rightarrow>
                parse_chunks cs (drop 2 val)
                  (t\<lparr>Year := (if y \<ge> 69 then y + 1900 else y + 2000)\<rparr>)))"
| "parse_chunks (stdLongYear # cs) val t =
     (if length val < 4 \<or> \<not> isDigit (hd val) then None
      else (case atoi (take 4 val) of
              None \<Rightarrow> None
            | Some y \<Rightarrow> parse_chunks cs (drop 4 val) (t\<lparr>Year := y\<rparr>)))"
| "parse_chunks (stdMonth # cs) val t =
     (case lookup shortMonthNames val of
        None \<Rightarrow> None
      | Some (i, v) \<Rightarrow> parse_chunks cs v (t\<lparr>Month := i + 1\<rparr>))"
| "parse_chunks (stdZeroMonth # cs) val t =
     (case getnum val True of
        None \<Rightarrow> None
      | Some (m, v) \<Rightarrow>
          if m \<le> 0 \<or> 12 < m then None else parse_chunks cs v (t\<lparr>Month := m\<rparr>))"
| "parse_chunks (stdWeekDay # cs) val t =
     (case lookup shortDayNames val of
        None \<Rightarrow> None
      | Some (i, v) \<Rightarrow> parse_chunks cs v t)"
| "parse_chunks (stdDay # cs) val t =
     (case getnum val False of
        None \<Rightarrow> None
      | Some (d, v) \<Rightarrow> parse_chunks cs v (t\<lparr>Day := d\<rparr>))"
| "parse_chunks (stdZeroDay # cs) val t =
     (case getnum val True of
        None \<Rightarrow> None
      | Some (d, v) \<Rightarrow> parse_chunks cs v (t\<lparr>Day := d\<rparr>))"
| "parse_chunks (stdHour # cs) val t =
     (case getnum val False of
        None \<Rightarrow> None
      | Some (h, v) \<Rightarrow>
          if h < 0 \<or> 24 \<le> h then None else parse_chunks cs v (t\<lparr>Hour := h\<rparr>))"
| "parse_chunks (stdZeroMinute # cs) val t =
     (case getnum val True of
        None \<Rightarrow> None
      | Some (m, v) \<Rightarrow>
          if m < 0 \<or> 60 \<le> m then None else parse_chunks cs v (t\<lparr>Minute := m\<rparr>))"
| "parse_chunks (stdZeroSecond # cs) val t =
     (case getnum val True of
        None \<Rightarrow> None
      | Some (s, v) \<Rightarrow>
          if s < 0 \<or> 60 \<le> s then None
          else parse_chunks cs (skip_fraction v) (t\<lparr>Second := s\<rparr>))"
| "parse_chunks (stdISO8601ColonTZ # cs) val t =
     (if length val \<ge> 1 \<and> hd val = CHR ''Z'' then parse_chunks cs (tl val) (t\<lparr>z_UTC := True\<rparr>)
      else if length val < 6 then None
      else if val ! 3 \<noteq> CHR '':'' then None
      else (case parse_offset (take 1 val) (take 2 (drop 1 val)) (take 2 (drop 4 val)) of
              None \<Rightarrow> None
            | Some off \<Rightarrow> parse_chunks cs (drop 6 val) (t\<lparr>zoneOffset := off\<rparr>)))"
| "parse_chunks (stdNumTZ # cs) val t =
     (if length val < 5 then None
      else (case parse_offset (take 1 val) (take 2 (drop 1 val)) (take 2 (drop 3 val)) of
              None \<Rightarrow> None
            | Some off \<Rightarrow> parse_chunks cs (drop 5 val) (t\<lparr>zoneOffset := off\<rparr>)))"
| "parse_chunks (stdTZ # cs) val t =
     (if length val \<ge> 3 \<and> take 3 val = ''UTC'' then parse_chunks cs (drop 3 val) (t\<lparr>z_UTC := True\<rparr>)
      else (case parseTimeZone val of
              None \<Rightarrow> None
            | Some n \<Rightarrow> parse_chunks cs (drop n val) (t\<lparr>zoneName := take n val\<rparr>)))"

text \<open>
  The Gregorian calendar: the number of days from 1 January 1970 to a date, and the date
  of a day number; \<open>unix_of_civil\<close> is the Unix time of a date and time of day read as
  UTC, as \<open>time.Date\<close> with the location UTC gives it.
\<close>

definition days_from_civil :: "int \<Rightarrow> int \<Rightarrow> int \<Rightarrow> int" where
  "days_from_civil y0 m d =
     (let y = (if m \<le> 2 then y0 - 1 else y0);
          era = y div 400;
          yoe = y - era * 400;
          doy = (153 * (if m > 2 then m - 3 else m + 9) + 2) div 5 + d - 1;
          doe = yoe * 365 + yoe div 4 - yoe div 100 + doy
      in era * 146097 + doe - 719468)"

definition civil_from_days :: "int \<Rightarrow> int \<times> int \<times> int" where
  "civil_from_days z0 =
     (let z = z0 + 719468;
          era = z div 146097;
          doe = z - era * 146097;
          yoe = (doe - doe div 1460 + doe div 36524 - doe div 146096) div 365;
          doy = doe - (365 * yoe + yoe div 4 - yoe div 100);
          mp = (5 * doy + 2) div 153;
          d = doy - (153 * mp + 2) div 5 + 1;
          m = (if mp < 10 then mp + 3 else mp - 9);
          y = yoe + era * 400
      in (if m \<le> 2 then y + 1 else y, m, d))"

definition unix_of_civil :: "parsed \<Rightarrow> int" where
  "unix_of_civil t =
     days_from_civil (Year t) (Month t) (Day t) * 86400
       + Hour t * 3600 + Minute t * 60 + Second t"

text \<open>
  \<open>lookupName\<close> of a location: the offset of a zone with the given abbreviation that
  was in effect at the given time (read in that zone), else of the first zone with that
  abbreviation, else nothing.
\<close>

definition lookupName :: "Location \<Rightarrow> string \<Rightarrow> int \<Rightarrow> int option" where
  "lookupName l name unix =
     (case find (\<lambda>(nam, off). nam = name \<and> fst (Location_lookup l (unix - off)) = nam)
             (Location_zone l) of
        Some (nam, off) \<Rightarrow> Some (snd (Location_lookup l (unix - off)))
      | None \<Rightarrow>
          (case find (\<lambda>(nam, off). nam = name) (Location_zone l) of
             Some (nam, off) \<Rightarrow> Some off
           | None \<Rightarrow> None))"

text \<open>
  A \<open>time.Time\<close> as far as formatting needs it: the Unix time of the instant and the
  offset, in seconds, that the location of the value has at that instant.

  \<open>time.Parse\<close> ends as follows.  With \<open>z\<close> set the fields are read in UTC.  With a
  numeric offset they are read at that offset and shown at it (in the local zone when it
  has that offset then, in a fixed zone otherwise: the same offset either way).  With a
  zone abbreviation that \<open>time.Local\<close> knows, the fields are read at the offset
  \<open>lookupName\<close> gives and the time is shown in the local zone; with one it does not
  know, the fields are read as UTC and shown in a fabricated zone, of offset zero, or of
  \<open>h\<close> hours when the abbreviation is \<open>GMT\<close> followed by a signed \<open>h\<close>.  With no zone
  the fields are read in UTC.
\<close>

record Time =
  unixSec :: int
  zone_offset :: int

definition time_Parse :: "Location \<Rightarrow> chunk list \<Rightarrow> string \<Rightarrow> Time option" where
  "time_Parse local layout val =
     (case parse_chunks layout val
             \<lparr>Year = 0, Month = - 1, Day = - 1, Hour = 0, Minute = 0, Second = 0,
                z_UTC = False, zoneOffset = - 1, zoneName = []\<rparr> of
        None \<Rightarrow> None
      | Some t \<Rightarrow>
          (let t = (if Month t < 0 then t\<lparr>Month := 1\<rparr> else t);
               t = (if Day t < 0 then t\<lparr>Day := 1\<rparr> else t)
           in if Day t < 1 \<or> Day t > daysIn (Month t) (Year t) then None
              else if z_UTC t then Some \<lparr>unixSec = unix_of_civil t, zone_offset = 0\<rparr>
              else if zoneOffset t \<noteq> - 1 then
                Some \<lparr>unixSec = unix_of_civil t - zoneOffset t, zone_offset = zoneOffset t\<rparr>
              else if zoneName t \<noteq> [] then
                (case lookupName local (zoneName t) (unix_of_civil t) of
                   Some off \<Rightarrow>
                     Some \<lparr>unixSec = unix_of_civil t - off,
                           zone_offset = snd (Location_lookup local (unix_of_civil t - off))\<rparr>
                 | None \<Rightarrow>
                     Some \<lparr>unixSec = unix_of_civil t,
                           zone_offset =
                             (if length (zoneName t) > 3 \<and> take 3 (zoneName t) = ''GMT''
                              then (case atoi (drop 3 (zoneName t)) of
                                      Some h \<Rightarrow> h * 3600 | None \<Rightarrow> 0)
                              else 0)\<rparr>)
              else Some \<lparr>unixSec = unix_of_civil t, zone_offset = 0\<rparr>))"

text \<open>
  The layouts of \<open>parseDate\<close>, in the order of the source:
  \<open>time.RFC1123 = "Mon, 02 Jan 2006 15:04:05 MST"\<close>,
  \<open>time.RFC1123Z = "Mon, 02 Jan 2006 15:04:05 -0700"\<close>,
  \<open>time.RFC822 = "02 Jan 06 15:04 MST"\<close>,
  \<open>time.RFC822Z = "02 Jan 06 15:04 -0700"\<close>,
  \<open>"2006-01-02T15:04:05Z07:00"\<close>,
  \<open>"2006-01-02T15:04:05Z"\<close> (a \<open>Z\<close> not followed by \<open>07\<close> is literal text),
  \<open>"2006-01-02 15:04:05"\<close>,
  \<open>"Mon, 2 Jan 2006 15:04:05 MST"\<close> and
  \<open>"Mon, 2 Jan 2006 15:04:05 -0700"\<close>.
\<close>

definition RFC1123 :: "chunk list" where
  "RFC1123 = [stdWeekDay, Lit '', '', stdZeroDay, Lit '' '', stdMonth, Lit '' '', stdLongYear,
              Lit '' '', stdHour, Lit '':'', stdZeroMinute, Lit '':'', stdZeroSecond,
              Lit '' '', stdTZ]"

definition RFC1123Z :: "chunk list" where
  "RFC1123Z = [stdWeekDay, Lit '', '', stdZeroDay, Lit '' '', stdMonth, Lit '' '', stdLongYear,
               Lit '' '', stdHour, Lit '':'', stdZeroMinute, Lit '':'', stdZeroSecond,
               Lit '' '', stdNumTZ]"

definition RFC822 :: "chunk list" where
  "RFC822 = [stdZeroDay, Lit '' '', stdMonth, Lit '' '', stdYear, Lit '' '', stdHour,
             Lit '':'', stdZeroMinute, Lit '' '', stdTZ]"

definition RFC822Z :: "chunk list" where
  "RFC822Z = [stdZeroDay, Lit '' '', stdMonth, Lit '' '', stdYear, Lit '' '', stdHour,
              Lit '':'', stdZeroMinute, Lit '' '', stdNumTZ]"

definition layouts :: "chunk list list" where
  "layouts =
     [RFC1123, RFC1123Z, RFC822, RFC822Z,
      [stdLongYear, Lit ''-'', stdZeroMonth, Lit ''-'', stdZeroDay, Lit ''T'', stdHour,
       Lit '':'', stdZeroMinute, Lit '':'', stdZeroSecond, stdISO8601ColonTZ],
      [stdLongYear, Lit ''-'', stdZeroMonth, Lit ''-'', stdZeroDay, Lit ''T'', stdHour,
       Lit '':'', stdZeroMinute, Lit '':'', stdZeroSecond, Lit ''Z''],
      [stdLongYear, Lit ''-'', stdZeroMonth, Lit ''-'', stdZeroDay, Lit '' '', stdHour,
       Lit '':'', stdZeroMinute, Lit '':'', stdZeroSecond],
      [stdWeekDay, Lit '', '', stdDay, Lit '' '', stdMonth, Lit '' '', stdLongYear,
       Lit '' '', stdHour, Lit '':'', stdZeroMinute, Lit '':'', stdZeroSecond,
       Lit '' '', stdTZ],
      [stdWeekDay, Lit '', '', stdDay, Lit '' '', stdMonth, Lit '' '', stdLongYear,
       Lit '' '', stdHour, Lit '':'', stdZeroMinute, Lit '':'', stdZeroSecond,
       Lit '' '', stdNumTZ]]"

text \<open>
  \<open>t.Format("02-01-2006")\<close>: the day and the month on two digits and the year on four,
  of the date that the instant has at the offset of the time's location.
\<close>

fun digits :: "nat \<Rightarrow> string" where
  "digits n = (if n < 10 then [char_of (48 + n)] else digits (n div 10) @ [char_of (48 + n mod 10)])"

declare digits.simps [simp del]

definition appendInt :: "int \<Rightarrow> nat \<Rightarrow> string" where
  "appendInt x width =
     (let ds = digits (nat \<bar>x\<bar>)
      in (if x < 0 then ''-'' else []) @ replicate (width - length ds) (CHR ''0'') @ ds)"

definition Date :: "Time \<Rightarrow> int \<times> int \<times> int" where
  "Date t = civil_from_days ((unixSec t + zone_offset t) div 86400)"

definition Format_DD_MM_YYYY :: "Time \<Rightarrow> string" where
  "Format_DD_MM_YYYY t =
     (let (y, m, d) = Date t
      in appendInt d 2 @ ''-'' @ appendInt m 2 @ ''-'' @ appendInt y 4)"

text \<open>\<open>parseDate\<close>: the loop over the layouts returns at the first that parses.\<close>

fun parseDate_loop :: "Location \<Rightarrow> chunk list list \<Rightarrow> string \<Rightarrow> string" where
  "parseDate_loop local [] pubDate = pubDate"
| "parseDate_loop local (layout # rest) pubDate =
     (case time_Parse local layout pubDate of
        Some t \<Rightarrow> Format_DD_MM_YYYY t
      | None \<Rightarrow> parseDate_loop local rest pubDate)"

definition parseDate :: "Location \<Rightarrow> string \<Rightarrow> string" where
  "parseDate local pubDate =
     (if pubDate = [] then [] else parseDate_loop local layouts pubDate)"

section \<open>Fetching and parsing a feed\<close>

text \<open>
  \<open>charsetReader\<close> lowers the label and switches on it.  The XML decoder itself is a
  parameter (\<open>xml_Decode\<close>); it receives \<open>charsetReader\<close> as the program sets it.
\<close>

definition charsetReader ::
  "(string \<Rightarrow> string) \<Rightarrow> string \<Rightarrow> io_Reader \<Rightarrow> error + io_Reader" where
  "charsetReader unicode_lower charset0 input =
     (let charset = ToLower unicode_lower charset0
      in if charset = ''utf-8'' \<or> charset = [] then Inr input
         else if charset = ''windows-1251'' \<or> charset = ''cp1251''
           then Inr (TransformReader input Windows1251)
         else if charset = ''windows-1252'' \<or> charset = ''cp1252''
           then Inr (TransformReader input Windows1252)
         else if charset = ''iso-8859-1'' \<or> charset = ''latin1''
           then Inr (TransformReader input ISO8859_1)
         else if charset = ''iso-8859-2'' \<or> charset = ''latin2''
           then Inr (TransformReader input ISO8859_2)
         else if charset = ''iso-8859-5'' then Inr (TransformReader input ISO8859_5)
         else if charset = ''iso-8859-15'' then Inr (TransformReader input ISO8859_15)
         else if charset = ''koi8-r'' then Inr (TransformReader input KOI8R)
         else if charset = ''koi8-u'' then Inr (TransformReader input KOI8U)
         else Inl (''unsupported charset: '' @ charset))"

definition parseFeed :: "world \<Rightarrow> string \<Rightarrow> error + RSS" where
  "parseFeed w data =
     (case xml_Decode w (charsetReader (unicode_ToLower w)) (BytesReader data) of
        Inl err \<Rightarrow> Inl (''XML parsing failed: '' @ err)
      | Inr rss \<Rightarrow> Inr rss)"

definition fetchFeed :: "world \<Rightarrow> string \<Rightarrow> error + RSS" where
  "fetchFeed w u =
     (case client_Get w u of
        Inl err \<Rightarrow> Inl (''HTTP request failed: '' @ err)
      | Inr resp \<Rightarrow>
          if StatusCode resp \<noteq> 200 then Inl (''HTTP error: '' @ Status resp)
          else (case Body resp of
                  Inl err \<Rightarrow> Inl (''failed to read response body: '' @ err)
                | Inr body \<Rightarrow> parseFeed w body))"

section \<open>Content resolution\<close>

text \<open>
  A Go slice expression \<open>text[:n]\<close> with a negative \<open>n\<close> panics; the panic is a value
  of the model.
\<close>

datatype panic = SliceBoundsOutOfRange

text \<open>
  \<open>mainContent\<close> is the body of \<open>extractMainText\<close> up to \<open>strings.TrimSpace\<close>: the
  removal of script, style, nav, footer and header blocks, the choice of the article
  blocks, else the first main block, else the whole document, the replacement of tags by
  spaces and the collapse of white space.  \<open>extractMainText\<close> then cuts the text.
\<close>

definition mainContent :: "string \<Rightarrow> string" where
  "mainContent html =
     (let html = removeBlocks ''script'' html;
          html = removeBlocks ''style'' html;
          html = removeBlocks ''nav'' html;
          html = removeBlocks ''footer'' html;
          html = removeBlocks ''header'' html;
          articleMatches = findAllBlocks ''article'' html;
          html = (if length articleMatches > 0
                  then foldl (\<lambda>acc m. acc @ m @ '' '') [] articleMatches
                  else (case findFirstBlock ''main'' html of
                          Some inner \<Rightarrow> inner
                        | None \<Rightarrow> html));
          text = replaceTags '' '' html;
          text = collapseSpaces text
      in TrimSpace text)"

definition extractMainText :: "config \<Rightarrow> string \<Rightarrow> panic + string" where
  "extractMainText cfg html =
     (let text = mainContent html
      in if int (length text) > maxLength cfg then
           (if maxLength cfg < 0 then Inl SliceBoundsOutOfRange
            else Inr (take (nat (maxLength cfg)) text @ ''...''))
         else Inr text)"

definition extractBasicContent ::
  "config \<Rightarrow> string \<Rightarrow> (string \<Rightarrow> error + HTTPResponse) \<Rightarrow> panic + string" where
  "extractBasicContent cfg link httpClient =
     (case httpClient link of
        Inl err \<Rightarrow> Inr []
      | Inr resp \<Rightarrow>
          if StatusCode resp \<noteq> 200 then Inr []
          else (case Body resp of
                  Inl err \<Rightarrow> Inr []
                | Inr body \<Rightarrow> extractMainText cfg body))"

definition extractContent ::
  "world \<Rightarrow> config \<Rightarrow> string \<Rightarrow> (string \<Rightarrow> error + HTTPResponse) option \<Rightarrow> panic + string" where
  "extractContent w cfg link httpClient0 =
     (let httpClient = (case httpClient0 of None \<Rightarrow> client_Get w | Some c \<Rightarrow> c);
          token = getenv w ''DIFFBOT_TOKEN''
      in if token = [] then extractBasicContent cfg link httpClient
         else (case httpClient (''https://api.diffbot.com/v3/article?token='' @ token
                                  @ ''&url='' @ url_QueryEscape w link) of
                 Inl err \<Rightarrow> extractBasicContent cfg link httpClient
               | Inr resp \<Rightarrow>
                   if StatusCode resp \<noteq> 200 then extractBasicContent cfg link httpClient
                   else (case Body resp of
                           Inl err \<Rightarrow> extractBasicContent cfg link httpClient
                         | Inr body \<Rightarrow>
                             (case json_Unmarshal_Diffbot w body of
                                Inl err \<Rightarrow> extractBasicContent cfg link httpClient
                              | Inr diffbotResp \<Rightarrow>
                                  (case Objects diffbotResp of
                                     [] \<Rightarrow> extractBasicContent cfg link httpClient
                                   | article # others \<Rightarrow>
                                       (let text = Article_Text article
                                        in if int (length text) > maxLength cfg then
                                             (if maxLength cfg < 0 then Inl SliceBoundsOutOfRange
                                              else Inr (take (nat (maxLength cfg)) text @ ''...''))
                                           else Inr text))))))"

section \<open>Relevance filter\<close>

definition buildPrompt :: "world \<Rightarrow> string \<Rightarrow> string \<Rightarrow> error + string" where
  "buildPrompt w topic content =
     (case template_Parse w (embeddedPrompt w) of
        Inl err \<Rightarrow> Inl (''failed to parse prompt template: '' @ err)
      | Inr tmpl \<Rightarrow>
          (case tmpl topic content of
             Inl err \<Rightarrow> Inl (''failed to execute prompt template: '' @ err)
           | Inr buf \<Rightarrow> Inr buf))"

definition Header_Set :: "string \<Rightarrow> string \<Rightarrow> HTTPRequest \<Rightarrow> HTTPRequest" where
  "Header_Set k v req = req\<lparr>Header := (k, v) # filter (\<lambda>(k', v'). k' \<noteq> k) (Header req)\<rparr>"

definition processWithOpenAI :: "world \<Rightarrow> string \<Rightarrow> string \<Rightarrow> string \<times> bool" where
  "processWithOpenAI w content topic =
     (let token = getenv w ''OPENAI_API_KEY''
      in if token = [] then (content, True)
         else (case buildPrompt w topic content of
                 Inl err \<Rightarrow> (content, True)
               | Inr prompt \<Rightarrow>
           (case json_Marshal w \<lparr>Model = ''gpt-3.5-turbo'',
                                  Messages = [\<lparr>Role = ''user'', Content = prompt\<rparr>]\<rparr> of
              Inl err \<Rightarrow> (content, True)
            | Inr requestBody \<Rightarrow>
           (case http_NewRequest w ''POST'' ''https://api.openai.com/v1/chat/completions''
                   requestBody of
              Inl err \<Rightarrow> (content, True)
            | Inr req \<Rightarrow>
           (case http_Do w (Header_Set ''Content-Type'' ''application/json''
                             (Header_Set ''Authorization'' (''Bearer '' @ token) req)) of
              Inl err \<Rightarrow> (content, True)
            | Inr resp \<Rightarrow>
                if StatusCode resp \<noteq> 200 then (content, True)
                else
           (case Body resp of
              Inl err \<Rightarrow> (content, True)
            | Inr body \<Rightarrow>
           (case json_Unmarshal_OpenAI w body of
              Inl err \<Rightarrow> (content, True)
            | Inr openaiResp \<Rightarrow>
           (case Choices openaiResp of
              [] \<Rightarrow> (content, True)
            | choice # others \<Rightarrow>
                (let response = Content (Choice_Message choice)
                 in if HasPrefix response ''NOT_RELEVANT'' then ([], False)
                    else if HasPrefix response ''RELEVANT:''
                      then (TrimSpace (TrimPrefix response ''RELEVANT:''), True)
                    else (content, True))))))))))"

section \<open>Output\<close>

text \<open>
  \<open>printItem\<close> returns the bytes it writes to the output file, or the panic that ends
  the process.  Log lines, the output mutex and \<open>Sync\<close> are left out.
  \<open>contentToProcess\<close> is the text that \<open>printItem\<close> builds for the relevance
  filter from the description and the extracted page text.
\<close>

definition hostname :: "world \<Rightarrow> string \<Rightarrow> string" where
  "hostname w feedURL = (case url_Parse w feedURL of Inl err \<Rightarrow> feedURL | Inr u \<Rightarrow> Host u)"

definition contentToProcess :: "Item \<Rightarrow> string \<Rightarrow> string" where
  "contentToProcess item webContent =
     (let content = (if Description item \<noteq> [] then strip (Description item) else [])
      in if webContent \<noteq> [] then
           (if content \<noteq> [] then content @ ''\<newline>\<newline>'' @ webContent else webContent)
         else content)"

definition printItem :: "world \<Rightarrow> config \<Rightarrow> string \<Rightarrow> Item \<Rightarrow> string \<Rightarrow> panic + string" where
  "printItem w cfg feedURL item channelTitle =
     (case (if Link item \<noteq> [] then extractContent w cfg (Link item) (Some (client_Get w))
            else Inr []) of
        Inl p \<Rightarrow> Inl p
      | Inr webContent \<Rightarrow>
     (let content = contentToProcess item webContent;
          (processedContent, shouldPrint) =
            (if focus cfg \<noteq> [] \<and> content \<noteq> [] then
               (let (processed, relevant) = processWithOpenAI w content (focus cfg)
                in if relevant then (processed, True) else ([], False))
             else ([], True))
      in if \<not> shouldPrint then Inr []
         else if fullOutput cfg then
           Inr (''\<newline>['' @ time_Now w @ ''] '' @ feedURL @ ''\<newline>''
                @ ''Title: '' @ strip (Title item) @ ''\<newline>''
                @ ''Link: '' @ Link item @ ''\<newline>''
                @ (if processedContent \<noteq> [] then ''Content: '' @ processedContent @ ''\<newline>''
                   else if Description item \<noteq> []
                     then ''Description: '' @ strip (Description item) @ ''\<newline>''
                   else if webContent \<noteq> [] then ''Content: '' @ webContent @ ''\<newline>''
                   else [])
                @ (if PubDate item \<noteq> [] then ''Published: '' @ PubDate item @ ''\<newline>'' else [])
                @ ''---\<newline>\<newline>'')
         else
           (let date = parseDate (time_Local w) (PubDate item);
                (out, hasContent) = (if date \<noteq> [] then (date, True) else ([], False));
                (out, hasContent) =
                  (if processedContent \<noteq> [] then
                     (out @ (if hasContent then '' '' else []) @ processedContent, True)
                   else if Description item \<noteq> [] then
                     (out @ (if hasContent then '' '' else []) @ strip (Description item), True)
                   else if webContent \<noteq> [] then
                     (out @ (if hasContent then '' '' else []) @ webContent, True)
                   else (out, hasContent));
                (out, hasContent) =
                  (if authored cfg \<and> channelTitle \<noteq> [] then
                     (let displayName =
                            (if Count_byte channelTitle (CHR '' '') > 2 then hostname w feedURL
                             else channelTitle)
                      in (out @ (if hasContent then '' '' else []) @ ''['' @ displayName @ '']'',
                          True))
                   else (out, hasContent))
            in Inr (if hasContent then out @ ''\<newline>\<newline>'' else out))))"

section \<open>Item identity and the poller\<close>

text \<open>\<open>getItemID\<close>: the guid when it is not empty, the link otherwise.\<close>

definition getItemID :: "Item \<Rightarrow> string" where
  "getItemID item = (if GUID item \<noteq> [] then GUID item else Link item)"

text \<open>
  What a poller does that is visible outside: \<open>Printed item out\<close> is a call of
  \<open>printItem\<close> for \<open>item\<close> that returned after writing \<open>out\<close>; \<open>Slept n\<close> is
  \<open>time.Sleep\<close> of \<open>n\<close> seconds.
\<close>

datatype event = Printed Item string | Slept nat

text \<open>
  \<open>reconcile\<close> is the loop over the items of one fetched document, under the feed's lock:
  an identity that is not in the map is put there, and then, unless this is the first run,
  the item is printed.  A panic of \<open>printItem\<close> ends the loop and the process.
\<close>

fun reconcile ::
  "(Item \<Rightarrow> panic + string) \<Rightarrow> bool \<Rightarrow> (string \<rightharpoonup> bool) \<Rightarrow> Item list
     \<Rightarrow> (string \<rightharpoonup> bool) \<times> event list \<times> panic option" where
  "reconcile pr firstRun m [] = (m, [], None)"
| "reconcile pr firstRun m (item # rest) =
     (let id = getItemID item
      in if \<not> items_get m id then
           (if \<not> firstRun then
              (case pr item of
                 Inl p \<Rightarrow> (m(id \<mapsto> True), [], Some p)
               | Inr out \<Rightarrow>
                   (case reconcile pr firstRun (m(id \<mapsto> True)) rest of
                      (m', evs, p) \<Rightarrow> (m', Printed item out # evs, p)))
            else reconcile pr firstRun (m(id \<mapsto> True)) rest)
         else reconcile pr firstRun m rest)"

text \<open>
  \<open>pollFeed\<close> loops forever.  The model runs it over the worlds that its successive
  cycles meet, one per cycle, and returns the state, the \<open>firstRun\<close> flag, the events in
  order and the panic, if one ended the run.
\<close>

record poller =
  state :: FeedState
  firstRun :: bool
  events :: "event list"
  crashed :: "panic option"

fun pollFeed_loop :: "config \<Rightarrow> FeedState \<Rightarrow> bool \<Rightarrow> world list \<Rightarrow> poller" where
  "pollFeed_loop cfg st fr [] = \<lparr>state = st, firstRun = fr, events = [], crashed = None\<rparr>"
| "pollFeed_loop cfg st fr (w # ws) =
     (case fetchFeed w (url st) of
        Inl err \<Rightarrow>
          (let r = pollFeed_loop cfg st fr ws in r\<lparr>events := Slept 30 # events r\<rparr>)
      | Inr feed \<Rightarrow>
          (case reconcile (\<lambda>item. printItem w cfg (url st) item (Channel_Title (Channel feed)))
                  fr (items st) (Items (Channel feed)) of
             (m, evs, Some p) \<Rightarrow>
               \<lparr>state = st\<lparr>items := m\<rparr>, firstRun = fr, events = evs, crashed = Some p\<rparr>
           | (m, evs, None) \<Rightarrow>
               (let r = pollFeed_loop cfg (st\<lparr>items := m\<rparr>) False ws
                in r\<lparr>events := evs @ Slept 30 # events r\<rparr>)))"

definition pollFeed :: "config \<Rightarrow> FeedState \<Rightarrow> world list \<Rightarrow> poller" where
  "pollFeed cfg st ws = pollFeed_loop cfg st True ws"

text \<open>The items that were printed, in order.\<close>

primrec printed :: "event list \<Rightarrow> Item list" where
  "printed [] = []"
| "printed (e # es) = (case e of Printed item out \<Rightarrow> item # printed es | Slept n \<Rightarrow> printed es)"

section \<open>Notions of the specification\<close>

text \<open>
  The allow-list of the charset normalizer: the labels, in lower case, with the decoder
  of each.
\<close>

definition allow_list :: "(string \<times> charmap) list" where
  "allow_list =
     [(''windows-1251'', Windows1251), (''cp1251'', Windows1251),
      (''windows-1252'', Windows1252), (''cp1252'', Windows1252),
      (''iso-8859-1'', ISO8859_1), (''latin1'', ISO8859_1),
      (''iso-8859-2'', ISO8859_2), (''latin2'', ISO8859_2),
      (''iso-8859-5'', ISO8859_5), (''iso-8859-15'', ISO8859_15),
      (''koi8-r'', KOI8R), (''koi8-u'', KOI8U)]"

text \<open>
  \<open>openai_reply w content topic response\<close>: in the world \<open>w\<close> the credential is set
  and every step of the request for \<open>content\<close> and \<open>topic\<close> succeeds (the prompt is
  built, the request is encoded, created and sent, the status is 200, the body is read and
  decoded, and it has a choice); \<open>response\<close> is the content of the first choice.
\<close>

definition openai_reply :: "world \<Rightarrow> string \<Rightarrow> string \<Rightarrow> string \<Rightarrow> bool" where
  "openai_reply w content topic response \<longleftrightarrow>
     getenv w ''OPENAI_API_KEY'' \<noteq> []
     \<and> (\<exists>prompt requestBody req resp body openaiResp choice others.
          buildPrompt w topic content = Inr prompt
        \<and> json_Marshal w \<lparr>Model = ''gpt-3.5-turbo'',
                            Messages = [\<lparr>Role = ''user'', Content = prompt\<rparr>]\<rparr> = Inr requestBody
        \<and> http_NewRequest w ''POST'' ''https://api.openai.com/v1/chat/completions'' requestBody
            = Inr req
        \<and> http_Do w (Header_Set ''Content-Type'' ''application/json''
                      (Header_Set ''Authorization'' (''Bearer '' @ getenv w ''OPENAI_API_KEY'') req))
            = Inr resp
        \<and> StatusCode resp = 200 \<and> Body resp = Inr body
        \<and> json_Unmarshal_OpenAI w body = Inr openaiResp
        \<and> Choices openaiResp = choice # others
        \<and> response = Content (Choice_Message choice))"

text \<open>
  Following the words of the specification: the space-separated words of a title are the
  non-empty pieces between its spaces.
\<close>

fun split_on_space :: "string \<Rightarrow> string list" where
  "split_on_space [] = [[]]"
| "split_on_space (c # cs) =
     (if c = CHR '' '' then [] # split_on_space cs
      else (case split_on_space cs of
              [] \<Rightarrow> [[c]]
            | word # rest \<Rightarrow> (c # word) # rest))"

definition space_separated_words :: "string \<Rightarrow> string list" where
  "space_separated_words s = filter (\<lambda>word. word \<noteq> []) (split_on_space s)"

text \<open>
  Following the words of the specification: the characters of a text are its Unicode code
  points; in UTF-8 each is a byte that is not a continuation byte, with the continuation
  bytes after it.
\<close>

definition utf8_continuation :: "char \<Rightarrow> bool" where
  "utf8_continuation c \<longleftrightarrow> 128 \<le> (of_char c :: nat) \<and> (of_char c :: nat) < 192"

function characters :: "string \<Rightarrow> string list" where
  "characters [] = []"
| "characters (c # cs) =
     (c # takeWhile utf8_continuation cs) # characters (dropWhile utf8_continuation cs)"
  by pat_completeness auto
termination
  by (relation "measure length") (auto simp: length_dropWhile_le less_Suc_eq_le)

section \<open>Concrete worlds\<close>

text \<open>
  Worlds, items and settings at which the theorems below are instantiated:
  \<open>offline_world\<close> has no network and no credentials; \<open>feed_world title its\<close> serves,
  at the feed's URL, a document whose channel has the given title and items.
\<close>

text \<open>
  \<open>UTC_location\<close> is the location of a process whose time zone is UTC.
  \<open>London_2023\<close> is Europe/London as it is during 2023: GMT, and BST from 26 March,
  01:00 UTC, to 29 October, 01:00 UTC.
\<close>

definition UTC_location :: Location where
  "UTC_location = \<lparr>Location_zone = [(''UTC'', 0)], Location_lookup = (\<lambda>unix. (''UTC'', 0))\<rparr>"

definition London_2023 :: Location where
  "London_2023 =
     \<lparr>Location_zone = [(''LMT'', - 75), (''BST'', 3600), (''GMT'', 0), (''BDST'', 7200)],
      Location_lookup = (\<lambda>unix. if 1679792400 \<le> unix \<and> unix < 1698541200
                                 then (''BST'', 3600) else (''GMT'', 0))\<rparr>"

definition offline_world :: world where
  "offline_world =
     \<lparr>getenv = (\<lambda>name. []),
      client_Get = (\<lambda>u. Inl ''connection refused''),
      xml_Decode = (\<lambda>cr input. Inl ''EOF''),
      json_Unmarshal_Diffbot = (\<lambda>body. Inl ''unexpected end of JSON input''),
      json_Unmarshal_OpenAI = (\<lambda>body. Inl ''unexpected end of JSON input''),
      json_Marshal = (\<lambda>req. Inr (concat (map Content (Messages req)))),
      embeddedPrompt = ''{{.Topic}} {{.Content}}'',
      template_Parse = (\<lambda>text. Inr (\<lambda>topic content. Inr (topic @ '' '' @ content))),
      http_NewRequest = (\<lambda>method u body.
         Inr \<lparr>Method = method, Request_URL = u, Request_Body = body, Header = []\<rparr>),
      http_Do = (\<lambda>req. Inl ''connection refused''),
      url_QueryEscape = (\<lambda>s. s),
      url_Parse = (\<lambda>u. Inr \<lparr>Host = ''example.com''\<rparr>),
      unicode_ToLower = (\<lambda>s. s),
      time_Now = ''2025-01-01 00:00:00'',
      time_Local = UTC_location\<rparr>"

definition feed_world :: "string \<Rightarrow> Item list \<Rightarrow> world" where
  "feed_world title its =
     offline_world
       \<lparr>client_Get := (\<lambda>u. if u = ''http://feed/rss.xml''
                            then Inr \<lparr>StatusCode = 200, Status = ''200 OK'', Body = Inr ''<rss/>''\<rparr>
                            else Inl ''connection refused''),
        xml_Decode := (\<lambda>cr input.
           Inr \<lparr>Channel = \<lparr>Channel_Title = title, Channel_Link = [],
                             Channel_Description = [], Items = its\<rparr>\<rparr>)\<rparr>"

definition item1 :: Item where
  "item1 = \<lparr>Title = ''First'', Link = ''http://feed/1'', Description = ''<p>One</p>'',
            PubDate = ''Mon, 15 Mar 2023 10:30:00 GMT'', GUID = ''g1''\<rparr>"

definition item2 :: Item where
  "item2 = \<lparr>Title = ''Second'', Link = ''http://feed/2'', Description = ''Two'',
            PubDate = [], GUID = ''g2''\<rparr>"

definition compact_config :: config where
  "compact_config = \<lparr>fullOutput = False, authored = True, maxLength = 10000, focus = []\<rparr>"

definition fresh_state :: FeedState where
  "fresh_state = \<lparr>url = ''http://feed/rss.xml'', items = Map.empty\<rparr>"

text \<open>
  \<open>openai_world reply\<close> has the reasoning-service credential and a service that answers
  \<open>reply\<close>; \<open>diffbot_world text\<close> has the extraction credential and a service that
  returns one article with that text for the link of \<open>item1\<close>.
\<close>

definition openai_world :: "string \<Rightarrow> world" where
  "openai_world reply =
     offline_world
       \<lparr>getenv := (\<lambda>name. if name = ''OPENAI_API_KEY'' then ''sk-test'' else []),
        http_Do := (\<lambda>req. Inr \<lparr>StatusCode = 200, Status = ''200 OK'', Body = Inr ''{}''\<rparr>),
        json_Unmarshal_OpenAI := (\<lambda>body.
           Inr \<lparr>Choices = [\<lparr>Choice_Message = \<lparr>Role = ''assistant'', Content = reply\<rparr>\<rparr>]\<rparr>)\<rparr>"

definition diffbot_world :: "string \<Rightarrow> world" where
  "diffbot_world article_text =
     offline_world
       \<lparr>getenv := (\<lambda>name. if name = ''DIFFBOT_TOKEN'' then ''tok'' else []),
        client_Get := (\<lambda>u. if u = ''https://api.diffbot.com/v3/article?token=tok&url=http://feed/1''
                            then Inr \<lparr>StatusCode = 200, Status = ''200 OK'', Body = Inr ''{}''\<rparr>
                            else Inl ''connection refused''),
        json_Unmarshal_Diffbot := (\<lambda>body.
           Inr \<lparr>Objects = [\<lparr>Article_Title = [], Article_Text = article_text,
                             Article_HTML = [], Article_Date = []\<rparr>]\<rparr>)\<rparr>"

definition focus_config :: config where
  "focus_config = \<lparr>fullOutput = False, authored = False, maxLength = 5, focus = ''ai''\<rparr>"

section \<open>Auxiliary facts\<close>

lemma printed_append: "printed (xs @ ys) = printed xs @ printed ys"
  by (induction xs) (auto split: event.splits)

lemma items_get_upd: "items_get (m(k \<mapsto> True)) k' \<longleftrightarrow> k' = k \<or> items_get m k'"
  by (simp add: items_get_def)

declare Let_def [simp]

lemma reconcile_firstRun:
  "reconcile pr True m its = (m', evs, p) \<Longrightarrow>
     evs = [] \<and> p = None \<and> (\<forall>k. items_get m' k \<longleftrightarrow> items_get m k \<or> k \<in> getItemID ` set its)"
proof (induction its arbitrary: m)
  case Nil
  then show ?case by simp
next
  case (Cons item rest)
  show ?case
  proof (cases "items_get m (getItemID item)")
    case True
    with Cons.prems have "reconcile pr True m rest = (m', evs, p)" by simp
    from Cons.IH[OF this] True show ?thesis by auto
  next
    case False
    with Cons.prems have "reconcile pr True (m(getItemID item \<mapsto> True)) rest = (m', evs, p)"
      by simp
    from Cons.IH[OF this] show ?thesis by (auto simp: items_get_def split: option.splits if_splits)
  qed
qed

lemma reconcile_seen:
  "reconcile pr fr m its = (m', evs, None) \<Longrightarrow>
     items_get m' k \<longleftrightarrow> items_get m k \<or> k \<in> getItemID ` set its"
proof (induction its arbitrary: m evs)
  case Nil
  then show ?case by simp
next
  case (Cons item rest)
  show ?case
  proof (cases "items_get m (getItemID item)")
    case True
    with Cons.prems have "reconcile pr fr m rest = (m', evs, None)" by simp
    from Cons.IH[OF this] True show ?thesis by auto
  next
    case False
    with Cons.prems obtain evs' where
      "reconcile pr fr (m(getItemID item \<mapsto> True)) rest = (m', evs', None)"
      by (auto split: if_splits sum.splits prod.splits)
    from Cons.IH[OF this] show ?thesis by (auto simp: items_get_def split: option.splits if_splits)
  qed
qed

lemma reconcile_mono:
  "reconcile pr fr m its = (m', evs, p) \<Longrightarrow> items_get m k \<Longrightarrow> items_get m' k"
proof (induction its arbitrary: m evs)
  case Nil
  then show ?case by simp
next
  case (Cons item rest)
  show ?case
  proof (cases "items_get m (getItemID item)")
    case True
    with Cons.prems have "reconcile pr fr m rest = (m', evs, p)" by simp
    from Cons.IH[OF this] Cons.prems(2) show ?thesis by auto
  next
    case False
    show ?thesis
    proof (cases "\<not> fr \<and> isl (pr item)")
      case True
      with False Cons.prems(1) have "m' = m(getItemID item \<mapsto> True)"
        by (auto split: sum.splits)
      with Cons.prems(2) show ?thesis by (simp add: items_get_def split: option.splits)
    next
      case nocrash: False
      with False Cons.prems(1) obtain evs' where
        "reconcile pr fr (m(getItemID item \<mapsto> True)) rest = (m', evs', p)"
        by (auto split: if_splits sum.splits prod.splits)
      from Cons.IH[OF this] Cons.prems(2) show ?thesis by (auto simp: items_get_def split: option.splits if_splits)
    qed
  qed
qed

lemma reconcile_printed_unseen:
  "reconcile pr fr m its = (m', evs, p) \<Longrightarrow> item \<in> set (printed evs) \<Longrightarrow>
     \<not> items_get m (getItemID item) \<and> items_get m' (getItemID item) \<and> item \<in> set its \<and> \<not> fr"
proof (induction its arbitrary: m evs)
  case Nil
  then show ?case by simp
next
  case (Cons it rest)
  show ?case
  proof (cases "items_get m (getItemID it)")
    case True
    with Cons.prems have "reconcile pr fr m rest = (m', evs, p)" by simp
    from Cons.IH[OF this Cons.prems(2)] show ?thesis by auto
  next
    case False
    show ?thesis
    proof (cases "\<not> fr \<and> isl (pr it)")
      case True
      with False Cons.prems(1) have "evs = []" by (auto split: sum.splits)
      with Cons.prems(2) show ?thesis by simp
    next
      case nocrash: False
      show ?thesis
      proof (cases fr)
        case True
        with False Cons.prems(1) have r: "reconcile pr fr (m(getItemID it \<mapsto> True)) rest = (m', evs, p)"
          by simp
        from Cons.IH[OF r Cons.prems(2)] True show ?thesis by simp
      next
        case notfirst: False
        with nocrash obtain out where out: "pr it = Inr out" by (cases "pr it") auto
        with False notfirst Cons.prems(1) obtain evs' where
          r: "reconcile pr fr (m(getItemID it \<mapsto> True)) rest = (m', evs', p)"
          and evs: "evs = Printed it out # evs'"
          by (auto split: prod.splits)
        show ?thesis
        proof (cases "item \<in> set (printed evs')")
          case True
          from Cons.IH[OF r True] show ?thesis by (auto simp: items_get_def split: option.splits if_splits)
        next
          case notin: False
          with evs Cons.prems(2) have "item = it" by simp
          moreover have "items_get m' (getItemID it)"
            using reconcile_mono[OF r, of "getItemID it"] by (simp add: items_get_def split: option.splits)
          ultimately show ?thesis using False notfirst by simp
        qed
      qed
    qed
  qed
qed

lemma reconcile_distinct:
  "reconcile pr fr m its = (m', evs, p) \<Longrightarrow> distinct (map getItemID (printed evs))"
proof (induction its arbitrary: m evs)
  case Nil
  then show ?case by simp
next
  case (Cons it rest)
  show ?case
  proof (cases "items_get m (getItemID it)")
    case True
    with Cons.prems have "reconcile pr fr m rest = (m', evs, p)" by simp
    from Cons.IH[OF this] show ?thesis .
  next
    case False
    show ?thesis
    proof (cases "\<not> fr \<and> isl (pr it)")
      case True
      with False Cons.prems(1) have "evs = []" by (auto split: sum.splits)
      then show ?thesis by simp
    next
      case nocrash: False
      show ?thesis
      proof (cases fr)
        case True
        with False Cons.prems(1) have r: "reconcile pr fr (m(getItemID it \<mapsto> True)) rest = (m', evs, p)"
          by simp
        from Cons.IH[OF r] show ?thesis .
      next
        case notfirst: False
        with nocrash obtain out where out: "pr it = Inr out" by (cases "pr it") auto
        with False notfirst Cons.prems(1) obtain evs' where
          r: "reconcile pr fr (m(getItemID it \<mapsto> True)) rest = (m', evs', p)"
          and evs: "evs = Printed it out # evs'"
          by (auto split: prod.splits)
        have "getItemID it \<notin> getItemID ` set (printed evs')"
        proof
          assume "getItemID it \<in> getItemID ` set (printed evs')"
          then obtain x where x: "x \<in> set (printed evs')" "getItemID x = getItemID it" by auto
          from reconcile_printed_unseen[OF r x(1)]
          have "\<not> items_get (m(getItemID it \<mapsto> True)) (getItemID x)" by simp
          with x(2) show False by (simp add: items_get_def)
        qed
        with Cons.IH[OF r] evs show ?thesis by simp
      qed
    qed
  qed
qed

lemma reconcile_subseq:
  "reconcile pr fr m its = (m', evs, p) \<Longrightarrow> subseq (printed evs) its"
proof (induction its arbitrary: m evs)
  case Nil
  then show ?case by simp
next
  case (Cons it rest)
  show ?case
  proof (cases "items_get m (getItemID it)")
    case True
    with Cons.prems have "reconcile pr fr m rest = (m', evs, p)" by simp
    from Cons.IH[OF this] show ?thesis by (rule list_emb_Cons)  
  next
    case False
    show ?thesis
    proof (cases "\<not> fr \<and> isl (pr it)")
      case True
      with False Cons.prems(1) have "evs = []" by (auto split: sum.splits)
      then show ?thesis by simp
    next
      case nocrash: False
      show ?thesis
      proof (cases fr)
        case True
        with False Cons.prems(1) have r: "reconcile pr fr (m(getItemID it \<mapsto> True)) rest = (m', evs, p)"
          by simp
        from Cons.IH[OF r] show ?thesis by (rule list_emb_Cons)
      next
        case notfirst: False
        with nocrash obtain out where out: "pr it = Inr out" by (cases "pr it") auto
        with False notfirst Cons.prems(1) obtain evs' where
          r: "reconcile pr fr (m(getItemID it \<mapsto> True)) rest = (m', evs', p)"
          and evs: "evs = Printed it out # evs'"
          by (auto split: prod.splits)
        from Cons.IH[OF r] evs show ?thesis by simp
      qed
    qed
  qed
qed

lemma reconcile_all_seen:
  "\<forall>it \<in> set its. items_get m (getItemID it) \<Longrightarrow> reconcile pr fr m its = (m, [], None)"
  by (induction its) auto


lemma pollFeed_loop_fail:
  "fetchFeed w (url st) = Inl err \<Longrightarrow>
     pollFeed_loop cfg st fr (w # ws) =
       (pollFeed_loop cfg st fr ws)\<lparr>events := Slept 30 # events (pollFeed_loop cfg st fr ws)\<rparr>"
  by simp

lemma pollFeed_loop_ok:
  "fetchFeed w (url st) = Inr feed \<Longrightarrow>
   reconcile (\<lambda>item. printItem w cfg (url st) item (Channel_Title (Channel feed)))
      fr (items st) (Items (Channel feed)) = (m, evs, None) \<Longrightarrow>
     pollFeed_loop cfg st fr (w # ws) =
       (pollFeed_loop cfg (st\<lparr>items := m\<rparr>) False ws)
         \<lparr>events := evs @ Slept 30 # events (pollFeed_loop cfg (st\<lparr>items := m\<rparr>) False ws)\<rparr>"
  by simp

lemma pollFeed_loop_crash:
  "fetchFeed w (url st) = Inr feed \<Longrightarrow>
   reconcile (\<lambda>item. printItem w cfg (url st) item (Channel_Title (Channel feed)))
      fr (items st) (Items (Channel feed)) = (m, evs, Some p) \<Longrightarrow>
     pollFeed_loop cfg st fr (w # ws) =
       \<lparr>state = st\<lparr>items := m\<rparr>, firstRun = fr, events = evs, crashed = Some p\<rparr>"
  by simp

lemma pollFeed_loop_fails:
  "list_all (\<lambda>w. isl (fetchFeed w (url st))) fails \<Longrightarrow>
     pollFeed_loop cfg st fr (fails @ ws) =
       (pollFeed_loop cfg st fr ws)
         \<lparr>events := replicate (length fails) (Slept 30) @ events (pollFeed_loop cfg st fr ws)\<rparr>"
proof (induction fails)
  case Nil
  show ?case by simp
next
  case (Cons w fails)
  then obtain err where "fetchFeed w (url st) = Inl err" by (cases "fetchFeed w (url st)") auto
  with Cons show ?case by simp
qed

lemma printed_replicate_Slept: "printed (replicate n (Slept k)) = []"
  by (induction n) auto

lemma pollFeed_loop_unseen:
  "item \<in> set (printed (events (pollFeed_loop cfg st fr ws))) \<Longrightarrow>
     \<not> items_get (items st) (getItemID item)"
proof (induction ws arbitrary: st fr)
  case Nil
  then show ?case by simp
next
  case (Cons w ws)
  show ?case
  proof (cases "fetchFeed w (url st)")
    case (Inl err)
    from Cons.prems show ?thesis
      unfolding pollFeed_loop_fail[OF Inl] by (auto dest: Cons.IH)
  next
    case (Inr feed)
    obtain m evs p where
      r: "reconcile (\<lambda>item. printItem w cfg (url st) item (Channel_Title (Channel feed)))
            fr (items st) (Items (Channel feed)) = (m, evs, p)"
      by (metis prod_cases3)
    show ?thesis
    proof (cases p)
      case None
      from Cons.prems have "item \<in> set (printed evs) \<or>
          item \<in> set (printed (events (pollFeed_loop cfg (st\<lparr>items := m\<rparr>) False ws)))"
        unfolding pollFeed_loop_ok[OF Inr r[unfolded None]] by (auto simp: printed_append)
      then show ?thesis
      proof
        assume "item \<in> set (printed evs)"
        with reconcile_printed_unseen[OF r] show ?thesis by simp
      next
        assume "item \<in> set (printed (events (pollFeed_loop cfg (st\<lparr>items := m\<rparr>) False ws)))"
        from Cons.IH[OF this] have "\<not> items_get m (getItemID item)" by simp
        with reconcile_mono[OF r] show ?thesis by blast
      qed
    next
      case (Some c)
      from Cons.prems have "item \<in> set (printed evs)"
        unfolding pollFeed_loop_crash[OF Inr r[unfolded Some]] by simp
      with reconcile_printed_unseen[OF r] show ?thesis by simp
    qed
  qed
qed

lemma pollFeed_loop_distinct:
  "distinct (map getItemID (printed (events (pollFeed_loop cfg st fr ws))))"
proof (induction ws arbitrary: st fr)
  case Nil
  then show ?case by simp
next
  case (Cons w ws)
  show ?case
  proof (cases "fetchFeed w (url st)")
    case (Inl err)
    show ?thesis unfolding pollFeed_loop_fail[OF Inl] using Cons.IH by simp
  next
    case (Inr feed)
    obtain m evs p where
      r: "reconcile (\<lambda>item. printItem w cfg (url st) item (Channel_Title (Channel feed)))
            fr (items st) (Items (Channel feed)) = (m, evs, p)"
      by (metis prod_cases3)
    show ?thesis
    proof (cases p)
      case None
      let ?later = "printed (events (pollFeed_loop cfg (st\<lparr>items := m\<rparr>) False ws))"
      have d1: "distinct (map getItemID (printed evs))" by (rule reconcile_distinct[OF r])
      have d2: "distinct (map getItemID ?later)" by (rule Cons.IH)
      have "getItemID ` set (printed evs) \<inter> getItemID ` set ?later = {}"
      proof (rule ccontr)
        assume "getItemID ` set (printed evs) \<inter> getItemID ` set ?later \<noteq> {}"
        then obtain a b where a: "a \<in> set (printed evs)" and b: "b \<in> set ?later"
          and ab: "getItemID a = getItemID b" by auto
        from reconcile_printed_unseen[OF r a] have "items_get m (getItemID a)" by simp
        moreover from pollFeed_loop_unseen[OF b] have "\<not> items_get m (getItemID b)" by simp
        ultimately show False using ab by simp
      qed
      with d1 d2 show ?thesis
        unfolding pollFeed_loop_ok[OF Inr r[unfolded None]] by (simp add: printed_append)
    next
      case (Some c)
      show ?thesis
        unfolding pollFeed_loop_crash[OF Inr r[unfolded Some]]
        using reconcile_distinct[OF r] by simp
    qed
  qed
qed


lemma pollFeed_loop_append:
  "crashed (pollFeed_loop cfg st fr ws1) = None \<Longrightarrow>
     pollFeed_loop cfg st fr (ws1 @ ws2) =
       (pollFeed_loop cfg (state (pollFeed_loop cfg st fr ws1))
           (firstRun (pollFeed_loop cfg st fr ws1)) ws2)
         \<lparr>events := events (pollFeed_loop cfg st fr ws1)
             @ events (pollFeed_loop cfg (state (pollFeed_loop cfg st fr ws1))
                 (firstRun (pollFeed_loop cfg st fr ws1)) ws2)\<rparr>"
proof (induction ws1 arbitrary: st fr)
  case Nil
  show ?case by simp
next
  case (Cons w ws)
  show ?case
  proof (cases "fetchFeed w (url st)")
    case (Inl err)
    from Cons.prems have "crashed (pollFeed_loop cfg st fr ws) = None"
      unfolding pollFeed_loop_fail[OF Inl] by simp
    from Cons.IH[OF this] show ?thesis
      using pollFeed_loop_fail[OF Inl, of cfg fr "ws @ ws2"] pollFeed_loop_fail[OF Inl, of cfg fr ws]
      by simp
  next
    case (Inr feed)
    obtain m evs p where
      r: "reconcile (\<lambda>item. printItem w cfg (url st) item (Channel_Title (Channel feed)))
            fr (items st) (Items (Channel feed)) = (m, evs, p)"
      by (metis prod_cases3)
    show ?thesis
    proof (cases p)
      case None
      note ok = pollFeed_loop_ok[OF Inr r[unfolded None]]
      from Cons.prems have "crashed (pollFeed_loop cfg (st\<lparr>items := m\<rparr>) False ws) = None"
        unfolding ok by simp
      from Cons.IH[OF this] show ?thesis
        using ok[of "ws @ ws2"] ok[of ws] by simp
    next
      case (Some c)
      from Cons.prems show ?thesis
        unfolding pollFeed_loop_crash[OF Inr r[unfolded Some]] by simp
    qed
  qed
qed

lemma first_cycle_run:
  assumes "list_all (\<lambda>w. isl (fetchFeed w (url st))) fails"
    and "fetchFeed w (url st) = Inr feed"
  shows "\<exists>m. pollFeed cfg st (fails @ [w]) =
            \<lparr>state = st\<lparr>items := m\<rparr>, firstRun = False,
             events = replicate (length fails) (Slept 30) @ [Slept 30], crashed = None\<rparr>
          \<and> (\<forall>k. items_get m k \<longleftrightarrow>
                 items_get (items st) k \<or> k \<in> getItemID ` set (Items (Channel feed)))"
proof -
  obtain m evs p where
    r: "reconcile (\<lambda>item. printItem w cfg (url st) item (Channel_Title (Channel feed)))
          True (items st) (Items (Channel feed)) = (m, evs, p)"
    by (metis prod_cases3)
  from reconcile_firstRun[OF r] have evs: "evs = []" and p: "p = None"
    and seen: "\<forall>k. items_get m k \<longleftrightarrow>
                 items_get (items st) k \<or> k \<in> getItemID ` set (Items (Channel feed))"
    by auto
  have one: "pollFeed_loop cfg st True [w] =
      \<lparr>state = st\<lparr>items := m\<rparr>, firstRun = False, events = [Slept 30], crashed = None\<rparr>"
    using pollFeed_loop_ok[OF assms(2) r[unfolded p], of "[]"] evs by simp
  have "pollFeed cfg st (fails @ [w]) =
      \<lparr>state = st\<lparr>items := m\<rparr>, firstRun = False,
       events = replicate (length fails) (Slept 30) @ [Slept 30], crashed = None\<rparr>"
    unfolding pollFeed_def pollFeed_loop_fails[OF assms(1)] one by simp
  with seen show ?thesis by blast
qed

lemma distinct_map_filter_le1:
  "distinct (map f xs) \<Longrightarrow> length (filter (\<lambda>x. f x = k) xs) \<le> 1"
proof (induction xs)
  case Nil
  show ?case by simp
next
  case (Cons x xs)
  show ?case
  proof (cases "f x = k")
    case True
    from Cons.prems have "f x \<notin> f ` set xs" by simp
    with True have "\<forall>y \<in> set xs. f y \<noteq> k" by (metis imageI)
    then have "filter (\<lambda>y. f y = k) xs = []"
      by (simp add: filter_empty_conv)
    with True show ?thesis by simp
  next
    case False
    with Cons show ?thesis by simp
  qed
qed

lemma charsetReader_table:
  "map_of allow_list (ToLower ul label) = Some cm \<Longrightarrow>
     charsetReader ul label input = Inr (TransformReader input cm)"
  by (auto simp: charsetReader_def allow_list_def split: if_splits)

lemma charsetReader_other:
  "ToLower ul label \<noteq> ''utf-8'' \<Longrightarrow> ToLower ul label \<noteq> [] \<Longrightarrow>
   map_of allow_list (ToLower ul label) = None \<Longrightarrow>
     charsetReader ul label input = Inl (''unsupported charset: '' @ ToLower ul label)"
  by (auto simp: charsetReader_def allow_list_def split: if_splits)

lemma parseDate_loop_skip:
  "list_all (\<lambda>layout. time_Parse local layout pubDate = None) before \<Longrightarrow>
     parseDate_loop local (before @ rest) pubDate = parseDate_loop local rest pubDate"
  by (induction before) auto

lemma example_parsed:
  "parse_chunks RFC1123 ''Mon, 15 Mar 2023 10:30:00 GMT''
     \<lparr>Year = 0, Month = - 1, Day = - 1, Hour = 0, Minute = 0, Second = 0,
        z_UTC = False, zoneOffset = - 1, zoneName = []\<rparr>
   = Some \<lparr>Year = 2023, Month = 3, Day = 15, Hour = 10, Minute = 30, Second = 0,
            z_UTC = False, zoneOffset = - 1, zoneName = ''GMT''\<rparr>"
  by code_simp

lemma example_unix:
  "unix_of_civil \<lparr>Year = 2023, Month = 3, Day = 15, Hour = 10, Minute = 30, Second = 0,
            z_UTC = False, zoneOffset = - 1, zoneName = ''GMT''\<rparr> = 1678876200"
  by code_simp

lemma example_daysIn: "daysIn 3 2023 = 31"
  by code_simp

lemma time_Parse_example:
  "time_Parse local RFC1123 ''Mon, 15 Mar 2023 10:30:00 GMT'' =
     Some (case lookupName local ''GMT'' 1678876200 of
             Some off \<Rightarrow>
               \<lparr>unixSec = 1678876200 - off,
                zone_offset = snd (Location_lookup local (1678876200 - off))\<rparr>
           | None \<Rightarrow> \<lparr>unixSec = 1678876200, zone_offset = 0\<rparr>)"
  by (simp add: time_Parse_def example_parsed example_unix example_daysIn split: option.splits)

lemma find_Some_member: "find P xs = Some x \<Longrightarrow> x \<in> set xs \<and> P x"
  by (induction xs) (auto split: if_splits)

lemma lookupName_absent:
  "list_all (\<lambda>z. fst z \<noteq> name) (Location_zone l) \<Longrightarrow> lookupName l name unix = None"
proof -
  assume a: "list_all (\<lambda>z. fst z \<noteq> name) (Location_zone l)"
  have 1: "find (\<lambda>(nam, off). nam = name \<and> fst (Location_lookup l (unix - off)) = nam)
             (Location_zone l) = None"
    using a by (auto simp: find_None_iff list_all_iff)
  have 2: "find (\<lambda>(nam, off). nam = name) (Location_zone l) = None"
    using a by (auto simp: find_None_iff list_all_iff)
  show ?thesis by (simp add: lookupName_def 1 2)
qed

lemma lookupName_zero:
  assumes z: "list_all (\<lambda>z. fst z = name \<longrightarrow> snd z = 0) (Location_zone l)"
    and e: "\<forall>u. fst (Location_lookup l u) = name \<longrightarrow> snd (Location_lookup l u) = 0"
  shows "lookupName l name unix = None \<or> lookupName l name unix = Some 0"
proof (cases "find (\<lambda>(nam, off). nam = name \<and> fst (Location_lookup l (unix - off)) = nam)
             (Location_zone l)")
  case None
  show ?thesis
  proof (cases "find (\<lambda>(nam, off). nam = name) (Location_zone l)")
    case n2: None
    with None show ?thesis by (simp add: lookupName_def)
  next
    case (Some p)
    then have "p \<in> set (Location_zone l)" "fst p = name"
      by (auto dest: find_Some_member)
    with z have "snd p = 0" by (auto simp: list_all_iff)
    with None Some show ?thesis by (cases p) (simp add: lookupName_def)
  qed
next
  case (Some p)
  then have "fst p = name" "fst (Location_lookup l (unix - snd p)) = name"
    by (auto dest: find_Some_member)
  with e have "snd (Location_lookup l (unix - snd p)) = 0" by blast
  with Some show ?thesis by (cases p) (simp add: lookupName_def)
qed

lemma Format_example:
  assumes "- 37800 \<le> off" and "off < 48600"
  shows "Format_DD_MM_YYYY \<lparr>unixSec = 1678876200, zone_offset = off\<rparr> = ''15-03-2023''"
proof -
  have "1678876200 + off = (37800 + off) + 19431 * 86400" by simp
  moreover have "(37800 + off) div 86400 = 0" using assms by (simp add: div_pos_pos_trivial)
  ultimately have "(1678876200 + off) div 86400 = 19431"
    by (simp only: div_mult_self1)
  moreover have "(let (y, m, d) = civil_from_days 19431
      in appendInt d 2 @ ''-'' @ appendInt m 2 @ ''-'' @ appendInt y 4) = ''15-03-2023''"
    by code_simp
  ultimately show ?thesis by (simp only: Format_DD_MM_YYYY_def Date_def Time.simps)
qed

lemma parseDate_example:
  assumes "time_Parse local RFC1123 ''Mon, 15 Mar 2023 10:30:00 GMT'' = Some t"
  shows "parseDate local ''Mon, 15 Mar 2023 10:30:00 GMT'' = Format_DD_MM_YYYY t"
  using assms by (simp add: parseDate_def layouts_def)

lemma processWithOpenAI_reply:
  assumes "openai_reply w content topic response"
  shows "processWithOpenAI w content topic =
           (if prefix ''NOT_RELEVANT'' response then ([], False)
            else if prefix ''RELEVANT:'' response
              then (TrimSpace (drop (length ''RELEVANT:'') response), True)
            else (content, True))"
  using assms
  by (auto simp: openai_reply_def processWithOpenAI_def HasPrefix_def TrimPrefix_def)

lemma processWithOpenAI_no_reply:
  assumes "\<not> (\<exists>response. openai_reply w content topic response)"
  shows "processWithOpenAI w content topic = (content, True)"
proof (rule ccontr)
  assume "processWithOpenAI w content topic \<noteq> (content, True)"
  then have "\<exists>response. openai_reply w content topic response"
    unfolding processWithOpenAI_def openai_reply_def
    by (auto simp: Let_def split: if_splits sum.splits list.splits)
  with assms show False by blast
qed

lemma printItem_suppressed:
  assumes "(if Link item \<noteq> [] then extractContent w cfg (Link item) (Some (client_Get w))
            else Inr []) = Inr webContent"
    and "focus cfg \<noteq> []" and "contentToProcess item webContent \<noteq> []"
    and "snd (processWithOpenAI w (contentToProcess item webContent) (focus cfg)) = False"
  shows "printItem w cfg feedURL item channelTitle = Inr []"
  using assms unfolding printItem_def
  by (simp add: case_prod_beta)

lemma printItem_compact_processed:
  assumes "(if Link item \<noteq> [] then extractContent w cfg (Link item) (Some (client_Get w))
            else Inr []) = Inr webContent"
    and "focus cfg \<noteq> []" and "contentToProcess item webContent \<noteq> []"
    and "processWithOpenAI w (contentToProcess item webContent) (focus cfg) = (processed, True)"
    and "processed \<noteq> []" and "\<not> fullOutput cfg" and "\<not> authored cfg"
  shows "printItem w cfg feedURL item channelTitle =
           Inr ((if parseDate (time_Local w) (PubDate item) \<noteq> []
                 then parseDate (time_Local w) (PubDate item) @ '' '' else [])
                @ processed @ ''\<newline>\<newline>'')"
  using assms unfolding printItem_def
  by (simp add: case_prod_beta)

lemma openai_world_reply: "openai_reply (openai_world reply) content topic reply"
  by (simp add: openai_reply_def openai_world_def offline_world_def buildPrompt_def)

text \<open>
  The flag \<open>max-length\<close> is not validated.  With a negative value the comparison
  with \<open>len(text)\<close> always holds and the slice expression panics.
\<close>

lemma negative_maxLength_panics:
  "maxLength cfg < 0 \<Longrightarrow> extractMainText cfg html = Inl SliceBoundsOutOfRange"
  by (simp add: extractMainText_def)

section \<open>Verified properties\<close>

text \<open>
  Claim C1.  Whatever failed cycles come before it, the first cycle of a poller that
  fetches and parses a document prints no item, however many the document has, does not
  end the process, and leaves the identity of every item of the document in the feed's
  map.
\<close>

theorem first_cycle_silent:
  assumes "list_all (\<lambda>w. isl (fetchFeed w (url st))) fails"
    and "fetchFeed w (url st) = Inr feed"
  shows "printed (events (pollFeed cfg st (fails @ [w]))) = []
       \<and> crashed (pollFeed cfg st (fails @ [w])) = None
       \<and> list_all (\<lambda>item. items_get (items (state (pollFeed cfg st (fails @ [w])))) (getItemID item))
            (Items (Channel feed))"
proof -
  from first_cycle_run[OF assms, of cfg] obtain m where
    run: "pollFeed cfg st (fails @ [w]) =
            \<lparr>state = st\<lparr>items := m\<rparr>, firstRun = False,
             events = replicate (length fails) (Slept 30) @ [Slept 30], crashed = None\<rparr>"
    and seen: "\<And>k. items_get m k \<longleftrightarrow>
                 items_get (items st) k \<or> k \<in> getItemID ` set (Items (Channel feed))"
    by blast
  show ?thesis
    unfolding run by (simp add: printed_append printed_replicate_Slept seen list_all_iff)
qed

theorem first_cycle_silent_witness:
  "printed (events (pollFeed compact_config fresh_state
      ([offline_world] @ [feed_world ''News'' [item1, item2]]))) = []
   \<and> items_get (items (state (pollFeed compact_config fresh_state
      ([offline_world] @ [feed_world ''News'' [item1, item2]])))) ''g1''
   \<and> items_get (items (state (pollFeed compact_config fresh_state
      ([offline_world] @ [feed_world ''News'' [item1, item2]])))) ''g2''"
proof -
  have h1: "list_all (\<lambda>w. isl (fetchFeed w (url fresh_state))) [offline_world]"
    by (simp add: fetchFeed_def offline_world_def fresh_state_def)
  have h2: "fetchFeed (feed_world ''News'' [item1, item2]) (url fresh_state) =
      Inr \<lparr>Channel = \<lparr>Channel_Title = ''News'', Channel_Link = [],
                       Channel_Description = [], Items = [item1, item2]\<rparr>\<rparr>"
    by (simp add: fetchFeed_def parseFeed_def feed_world_def offline_world_def fresh_state_def)
  show ?thesis
    using first_cycle_silent[OF h1 h2, of compact_config]
    by (simp add: getItemID_def item1_def item2_def)
qed


text \<open>
  Claim C3.  Over any run of a poller from any state, no printed item has an identity
  that was in the map at the start of the run, and no identity is printed twice, whatever
  the other fields of the items are.  A run splits at any cycle into the run so far and
  the run from the state reached, and what the later cycles print is absent from the map
  reached.  When two cycles in a row fetch documents with the same items, a poller started
  on them prints nothing at all, and at any later point the second of the two cycles adds
  nothing but its sleep.
\<close>

theorem seen_identity_never_reemitted:
  "list_all (\<lambda>item. \<not> items_get (items st) (getItemID item))
      (printed (events (pollFeed_loop cfg st fr ws)))
   \<and> distinct (map getItemID (printed (events (pollFeed_loop cfg st fr ws))))
   \<and> (crashed (pollFeed_loop cfg st fr ws1) = None
      \<longrightarrow> events (pollFeed_loop cfg st fr (ws1 @ ws2))
            = events (pollFeed_loop cfg st fr ws1)
              @ events (pollFeed_loop cfg (state (pollFeed_loop cfg st fr ws1))
                  (firstRun (pollFeed_loop cfg st fr ws1)) ws2)
          \<and> list_all (\<lambda>item. \<not> items_get (items (state (pollFeed_loop cfg st fr ws1)))
                                   (getItemID item))
                (printed (events (pollFeed_loop cfg (state (pollFeed_loop cfg st fr ws1))
                   (firstRun (pollFeed_loop cfg st fr ws1)) ws2))))
   \<and> (fetchFeed w1 (url st) = Inr f1 \<and> fetchFeed w2 (url st) = Inr f2
        \<and> Items (Channel f2) = Items (Channel f1)
      \<longrightarrow> printed (events (pollFeed cfg st [w1, w2])) = []
          \<and> (crashed (pollFeed_loop cfg st fr [w1]) = None
             \<longrightarrow> events (pollFeed_loop cfg st fr [w1, w2])
                   = events (pollFeed_loop cfg st fr [w1]) @ [Slept 30]))"
proof (intro conjI impI)
  show "list_all (\<lambda>item. \<not> items_get (items st) (getItemID item))
      (printed (events (pollFeed_loop cfg st fr ws)))"
    by (auto simp: list_all_iff dest: pollFeed_loop_unseen)
  show "distinct (map getItemID (printed (events (pollFeed_loop cfg st fr ws))))"
    by (rule pollFeed_loop_distinct)
next
  assume nc: "crashed (pollFeed_loop cfg st fr ws1) = None"
  show "events (pollFeed_loop cfg st fr (ws1 @ ws2))
            = events (pollFeed_loop cfg st fr ws1)
              @ events (pollFeed_loop cfg (state (pollFeed_loop cfg st fr ws1))
                  (firstRun (pollFeed_loop cfg st fr ws1)) ws2)"
    using pollFeed_loop_append[OF nc, of ws2] by simp
  show "list_all (\<lambda>item. \<not> items_get (items (state (pollFeed_loop cfg st fr ws1)))
                                   (getItemID item))
                (printed (events (pollFeed_loop cfg (state (pollFeed_loop cfg st fr ws1))
                   (firstRun (pollFeed_loop cfg st fr ws1)) ws2)))"
    by (auto simp: list_all_iff dest: pollFeed_loop_unseen)
next
  assume a: "fetchFeed w1 (url st) = Inr f1 \<and> fetchFeed w2 (url st) = Inr f2
        \<and> Items (Channel f2) = Items (Channel f1)"
  then have f1: "fetchFeed w1 (url st) = Inr f1" and f2: "fetchFeed w2 (url st) = Inr f2"
    and same: "Items (Channel f2) = Items (Channel f1)" by auto
  have second: "events (pollFeed_loop cfg st fr' [w1, w2])
      = events (pollFeed_loop cfg st fr' [w1]) @ [Slept 30]"
    if nc: "crashed (pollFeed_loop cfg st fr' [w1]) = None" for fr'
  proof -
    obtain m evs p where
      r: "reconcile (\<lambda>item. printItem w1 cfg (url st) item (Channel_Title (Channel f1)))
            fr' (items st) (Items (Channel f1)) = (m, evs, p)"
      by (metis prod_cases3)
    have p: "p = None"
    proof (cases p)
      case (Some c)
      from pollFeed_loop_crash[OF f1 r[unfolded Some], of "[]"] nc show ?thesis by simp
    qed simp
    have seen: "\<forall>it \<in> set (Items (Channel f2)). items_get m (getItemID it)"
      using reconcile_seen[OF r[unfolded p]] same by auto
    have r2: "reconcile (\<lambda>item. printItem w2 cfg (url st) item (Channel_Title (Channel f2)))
            False m (Items (Channel f2)) = (m, [], None)"
      by (rule reconcile_all_seen[OF seen])
    have u: "url (st\<lparr>items := m\<rparr>) = url st" "items (st\<lparr>items := m\<rparr>) = m" by simp_all
    have c2: "pollFeed_loop cfg (st\<lparr>items := m\<rparr>) False [w2] =
        \<lparr>state = st\<lparr>items := m\<rparr>, firstRun = False, events = [Slept 30], crashed = None\<rparr>"
      using pollFeed_loop_ok[of w2 "st\<lparr>items := m\<rparr>" f2 cfg False m "[]" "[]"] f2 r2
      by simp
    show ?thesis
      unfolding pollFeed_loop_ok[OF f1 r[unfolded p]] c2 by simp
  qed
  {
    assume "crashed (pollFeed_loop cfg st fr [w1]) = None"
    then show "events (pollFeed_loop cfg st fr [w1, w2])
            = events (pollFeed_loop cfg st fr [w1]) @ [Slept 30]"
      by (rule second)
  }
  from first_cycle_run[of st "[]" w1 f1 cfg] f1
  have first: "events (pollFeed_loop cfg st True [w1]) = [Slept 30]"
      "crashed (pollFeed_loop cfg st True [w1]) = None"
    by (auto simp: pollFeed_def)
  from second[OF first(2)] first(1)
  show "printed (events (pollFeed cfg st [w1, w2])) = []"
    by (simp add: pollFeed_def)
qed

theorem seen_identity_never_reemitted_witness:
  "printed (events (pollFeed compact_config fresh_state
      [feed_world ''News'' [item2], feed_world ''Other'' [item2]])) = []
   \<and> events (pollFeed_loop compact_config fresh_state False
        [feed_world ''News'' [item2], feed_world ''Other'' [item2]])
     = events (pollFeed_loop compact_config fresh_state False [feed_world ''News'' [item2]])
       @ [Slept 30]"
proof -
  let ?f1 = "\<lparr>Channel = \<lparr>Channel_Title = ''News'', Channel_Link = [],
                       Channel_Description = [], Items = [item2]\<rparr>\<rparr>"
  let ?f2 = "\<lparr>Channel = \<lparr>Channel_Title = ''Other'', Channel_Link = [],
                       Channel_Description = [], Items = [item2]\<rparr>\<rparr>"
  have h: "fetchFeed (feed_world ''News'' [item2]) (url fresh_state) = Inr ?f1
      \<and> fetchFeed (feed_world ''Other'' [item2]) (url fresh_state) = Inr ?f2
      \<and> Items (Channel ?f2) = Items (Channel ?f1)"
    by (simp add: fetchFeed_def parseFeed_def feed_world_def offline_world_def fresh_state_def)
  have nc: "crashed (pollFeed_loop compact_config fresh_state False [feed_world ''News'' [item2]])
      = None"
    by code_simp
  from seen_identity_never_reemitted
    [where st = fresh_state and cfg = compact_config and fr = False
       and ?w1.0 = "feed_world ''News'' [item2]" and ?f1.0 = ?f1
       and ?w2.0 = "feed_world ''Other'' [item2]" and ?f2.0 = ?f2] h nc
  show ?thesis by blast
qed

text \<open>
  Claim C9.  A transport error, a status outside 200 to 299 and a document that does not
  parse each make \<open>fetchFeed\<close> return an error.  A cycle whose \<open>fetchFeed\<close> returns
  an error leaves the state and the first-run flag as they were, prints nothing, sleeps
  30 seconds, and the loop goes on with the cycles that remain.
\<close>

theorem failed_cycle_keeps_state:
  "(client_Get w u = Inl e \<longrightarrow> isl (fetchFeed w u))
   \<and> (client_Get w u = Inr resp \<and> \<not> (200 \<le> StatusCode resp \<and> StatusCode resp \<le> 299)
        \<longrightarrow> isl (fetchFeed w u))
   \<and> (client_Get w u = Inr resp \<and> Body resp = Inr body \<and> isl (parseFeed w body)
        \<longrightarrow> isl (fetchFeed w u))
   \<and> (isl (fetchFeed w (url st))
        \<longrightarrow> pollFeed_loop cfg st fr [w] =
              \<lparr>state = st, firstRun = fr, events = [Slept 30], crashed = None\<rparr>
          \<and> pollFeed_loop cfg st fr (w # ws) =
              (pollFeed_loop cfg st fr ws)
                \<lparr>events := Slept 30 # events (pollFeed_loop cfg st fr ws)\<rparr>)"
proof (intro conjI impI)
  assume "isl (fetchFeed w (url st))"
  then obtain err where err: "fetchFeed w (url st) = Inl err"
    by (cases "fetchFeed w (url st)") auto
  show "pollFeed_loop cfg st fr [w] =
      \<lparr>state = st, firstRun = fr, events = [Slept 30], crashed = None\<rparr>"
    unfolding pollFeed_loop_fail[OF err] by simp
  show "pollFeed_loop cfg st fr (w # ws) =
      (pollFeed_loop cfg st fr ws)\<lparr>events := Slept 30 # events (pollFeed_loop cfg st fr ws)\<rparr>"
    by (rule pollFeed_loop_fail[OF err])
qed (auto simp: fetchFeed_def split: sum.splits)

theorem failed_cycle_keeps_state_witness:
  "pollFeed_loop compact_config (fresh_state\<lparr>items := [''g1'' \<mapsto> True]\<rparr>) False [offline_world] =
     \<lparr>state = fresh_state\<lparr>items := [''g1'' \<mapsto> True]\<rparr>, firstRun = False,
      events = [Slept 30], crashed = None\<rparr>
   \<and> isl (fetchFeed (offline_world\<lparr>client_Get := (\<lambda>u. Inr \<lparr>StatusCode = 503,
         Status = ''503 Service Unavailable'', Body = Inr []\<rparr>)\<rparr>) ''http://feed/rss.xml'')
   \<and> isl (fetchFeed (offline_world\<lparr>client_Get := (\<lambda>u. Inr \<lparr>StatusCode = 200,
         Status = ''200 OK'', Body = Inr ''<rss''\<rparr>)\<rparr>) ''http://feed/rss.xml'')"
proof -
  have a: "isl (fetchFeed offline_world (url (fresh_state\<lparr>items := [''g1'' \<mapsto> True]\<rparr>)))"
    by (simp add: fetchFeed_def offline_world_def)
  have b: "isl (parseFeed (offline_world\<lparr>client_Get := (\<lambda>u. Inr \<lparr>StatusCode = 200,
         Status = ''200 OK'', Body = Inr ''<rss''\<rparr>)\<rparr>) ''<rss'')"
    by (simp add: parseFeed_def offline_world_def)
  from failed_cycle_keeps_state
    [of offline_world "''http://feed/rss.xml''" "''connection refused''" _ _
        "fresh_state\<lparr>items := [''g1'' \<mapsto> True]\<rparr>" compact_config False "[]"] a
  have 1: "pollFeed_loop compact_config (fresh_state\<lparr>items := [''g1'' \<mapsto> True]\<rparr>) False
      [offline_world] =
     \<lparr>state = fresh_state\<lparr>items := [''g1'' \<mapsto> True]\<rparr>, firstRun = False,
      events = [Slept 30], crashed = None\<rparr>"
    by blast
  from failed_cycle_keeps_state
    [of "offline_world\<lparr>client_Get := (\<lambda>u. Inr \<lparr>StatusCode = 503,
         Status = ''503 Service Unavailable'', Body = Inr []\<rparr>)\<rparr>" "''http://feed/rss.xml''" _
        "\<lparr>StatusCode = 503, Status = ''503 Service Unavailable'', Body = Inr []\<rparr>"]
  have 2: "isl (fetchFeed (offline_world\<lparr>client_Get := (\<lambda>u. Inr \<lparr>StatusCode = 503,
         Status = ''503 Service Unavailable'', Body = Inr []\<rparr>)\<rparr>) ''http://feed/rss.xml'')"
    by simp
  from failed_cycle_keeps_state
    [of "offline_world\<lparr>client_Get := (\<lambda>u. Inr \<lparr>StatusCode = 200,
         Status = ''200 OK'', Body = Inr ''<rss''\<rparr>)\<rparr>" "''http://feed/rss.xml''" _
        "\<lparr>StatusCode = 200, Status = ''200 OK'', Body = Inr ''<rss''\<rparr>" "''<rss''"] b
  have 3: "isl (fetchFeed (offline_world\<lparr>client_Get := (\<lambda>u. Inr \<lparr>StatusCode = 200,
         Status = ''200 OK'', Body = Inr ''<rss''\<rparr>)\<rparr>) ''http://feed/rss.xml'')"
    by simp
  from 1 2 3 show ?thesis by simp
qed

text \<open>
  Claim C10.  In one cycle at most one item of each identity is printed.  The printed
  items are distinct in identity, in document order, were absent from the map before the
  cycle and are in it afterwards; the identity is put in the map before the item is
  printed, so that it is there even when printing ends the process.
\<close>

theorem duplicate_identity_emitted_once:
  "length (filter (\<lambda>item. getItemID item = k) (printed (events (pollFeed_loop cfg st fr [w])))) \<le> 1
   \<and> (reconcile pr fr m its = (m', evs, p)
        \<longrightarrow> distinct (map getItemID (printed evs))
          \<and> subseq (printed evs) its
          \<and> list_all (\<lambda>item. \<not> items_get m (getItemID item) \<and> items_get m' (getItemID item))
                (printed evs))
   \<and> (\<not> items_get m (getItemID item) \<and> pr item = Inl c
        \<longrightarrow> reconcile pr False m (item # rest) = (m(getItemID item \<mapsto> True), [], Some c))"
proof (intro conjI impI)
  show "length (filter (\<lambda>item. getItemID item = k)
      (printed (events (pollFeed_loop cfg st fr [w])))) \<le> 1"
    by (rule distinct_map_filter_le1[OF pollFeed_loop_distinct])
next
  assume r: "reconcile pr fr m its = (m', evs, p)"
  show "distinct (map getItemID (printed evs))" by (rule reconcile_distinct[OF r])
  show "subseq (printed evs) its" by (rule reconcile_subseq[OF r])
  show "list_all (\<lambda>item. \<not> items_get m (getItemID item) \<and> items_get m' (getItemID item))
      (printed evs)"
    using reconcile_printed_unseen[OF r] by (auto simp: list_all_iff)
next
  assume "\<not> items_get m (getItemID item) \<and> pr item = Inl c"
  then show "reconcile pr False m (item # rest) = (m(getItemID item \<mapsto> True), [], Some c)"
    by simp
qed

theorem duplicate_identity_emitted_once_witness:
  "length (filter (\<lambda>item. getItemID item = ''g1'')
      (printed (events (pollFeed_loop compact_config fresh_state False
         [feed_world ''News'' [item1, item1\<lparr>Title := ''Again''\<rparr>, item2]])))) \<le> 1
   \<and> distinct (map getItemID (printed (fst (snd
         (reconcile (\<lambda>item. Inr []) False Map.empty [item1, item1\<lparr>Title := ''Again''\<rparr>, item2])))))
   \<and> reconcile (\<lambda>item. Inl SliceBoundsOutOfRange) False Map.empty [item1, item2]
       = ([getItemID item1 \<mapsto> True], [], Some SliceBoundsOutOfRange)"
proof -
  let ?r = "reconcile (\<lambda>item. Inr []) False Map.empty [item1, item1\<lparr>Title := ''Again''\<rparr>, item2]"
  have r: "?r = (fst ?r, fst (snd ?r), snd (snd ?r))" by simp
  have c: "\<not> items_get Map.empty (getItemID item1)
      \<and> (\<lambda>item. Inl SliceBoundsOutOfRange) item1 = (Inl SliceBoundsOutOfRange :: panic + string)"
    by (simp add: items_get_def)
  from duplicate_identity_emitted_once
    [where k = "''g1''" and cfg = compact_config and st = fresh_state and fr = False
       and w = "feed_world ''News'' [item1, item1\<lparr>Title := ''Again''\<rparr>, item2]"
       and pr = "\<lambda>item. Inr []" and m = Map.empty
       and its = "[item1, item1\<lparr>Title := ''Again''\<rparr>, item2]"
       and m' = "fst ?r" and evs = "fst (snd ?r)" and p = "snd (snd ?r)"] r
  have a: "length (filter (\<lambda>item. getItemID item = ''g1'')
      (printed (events (pollFeed_loop compact_config fresh_state False
         [feed_world ''News'' [item1, item1\<lparr>Title := ''Again''\<rparr>, item2]])))) \<le> 1
   \<and> distinct (map getItemID (printed (fst (snd ?r))))"
    by blast
  from duplicate_identity_emitted_once
    [where pr = "\<lambda>item. Inl SliceBoundsOutOfRange" and m = Map.empty and item = item1
       and c = SliceBoundsOutOfRange and rest = "[item2]"] c
  have b: "reconcile (\<lambda>item. Inl SliceBoundsOutOfRange) False Map.empty [item1, item2]
       = ([getItemID item1 \<mapsto> True], [], Some SliceBoundsOutOfRange)"
    by blast
  from a b show ?thesis by blast
qed

text \<open>
  Claim C2.  The identity of an item is its guid when the guid is not empty and its link
  otherwise.  Hence two items with distinct non-empty guids have distinct identities,
  whatever their links, and an item with an empty guid has its link as identity.
\<close>

theorem getItemID_identity:
  "getItemID item = (if GUID item \<noteq> [] then GUID item else Link item)
   \<and> (GUID a \<noteq> [] \<and> GUID b \<noteq> [] \<and> GUID a \<noteq> GUID b \<longrightarrow> getItemID a \<noteq> getItemID b)
   \<and> (GUID item = [] \<longrightarrow> getItemID item = Link item)"
  by (simp add: getItemID_def)

theorem getItemID_identity_witness:
  "getItemID \<lparr>Title = ''t'', Link = ''http://x/1'', Description = [], PubDate = [], GUID = ''g1''\<rparr>
     \<noteq> getItemID \<lparr>Title = ''u'', Link = ''http://x/1'', Description = [], PubDate = [], GUID = ''g2''\<rparr>
   \<and> getItemID \<lparr>Title = ''t'', Link = ''http://x/1'', Description = [], PubDate = [], GUID = []\<rparr>
     = ''http://x/1''"
  using getItemID_identity
    [of "\<lparr>Title = ''t'', Link = ''http://x/1'', Description = [], PubDate = [], GUID = []\<rparr>"
        "\<lparr>Title = ''t'', Link = ''http://x/1'', Description = [], PubDate = [], GUID = ''g1''\<rparr>"
        "\<lparr>Title = ''u'', Link = ''http://x/1'', Description = [], PubDate = [], GUID = ''g2''\<rparr>"]
  by simp

text \<open>
  Claim C4.  When the reasoning service answers, \<open>processWithOpenAI\<close> classifies the
  answer by its prefix: \<open>NOT_RELEVANT\<close> gives no content and the verdict not relevant,
  \<open>RELEVANT:\<close> gives the trimmed remainder, and any other answer gives the original
  content.  A missing credential, and any failure of a step of the request (in
  particular of the transport or of the decoding of the answer), give the original
  content with the verdict relevant.  In \<open>printItem\<close>, with a topic set and
  content to process, the verdict not relevant writes nothing, and a non-empty processed
  content is what the compact line shows.
\<close>

theorem relevance_classification:
  "(openai_reply w content topic response \<and> prefix ''NOT_RELEVANT'' response
      \<longrightarrow> processWithOpenAI w content topic = ([], False))
   \<and> (openai_reply w content topic response \<and> prefix ''RELEVANT:'' response
      \<longrightarrow> processWithOpenAI w content topic
            = (TrimSpace (drop (length ''RELEVANT:'') response), True))
   \<and> (openai_reply w content topic response \<and> \<not> prefix ''NOT_RELEVANT'' response
        \<and> \<not> prefix ''RELEVANT:'' response
      \<longrightarrow> processWithOpenAI w content topic = (content, True))
   \<and> (getenv w ''OPENAI_API_KEY'' = [] \<longrightarrow> processWithOpenAI w content topic = (content, True))
   \<and> (\<not> (\<exists>r. openai_reply w content topic r)
      \<longrightarrow> processWithOpenAI w content topic = (content, True))
   \<and> ((\<forall>req. isl (http_Do w req)) \<or> (\<forall>body. isl (json_Unmarshal_OpenAI w body))
      \<longrightarrow> processWithOpenAI w content topic = (content, True))
   \<and> ((if Link item \<noteq> [] then extractContent w cfg (Link item) (Some (client_Get w))
         else Inr []) = Inr webContent
        \<and> focus cfg \<noteq> [] \<and> contentToProcess item webContent \<noteq> []
      \<longrightarrow> (snd (processWithOpenAI w (contentToProcess item webContent) (focus cfg)) = False
             \<longrightarrow> printItem w cfg feedURL item channelTitle = Inr [])
          \<and> (processWithOpenAI w (contentToProcess item webContent) (focus cfg) = (processed, True)
               \<and> processed \<noteq> [] \<and> \<not> fullOutput cfg \<and> \<not> authored cfg
             \<longrightarrow> printItem w cfg feedURL item channelTitle =
                   Inr ((if parseDate (time_Local w) (PubDate item) \<noteq> []
                         then parseDate (time_Local w) (PubDate item) @ '' '' else [])
                        @ processed @ ''\<newline>\<newline>'')))"
proof (intro conjI impI)
  show "processWithOpenAI w content topic = ([], False)"
    if "openai_reply w content topic response \<and> prefix ''NOT_RELEVANT'' response"
    using that processWithOpenAI_reply[of w content topic response] by simp
  show "processWithOpenAI w content topic
      = (TrimSpace (drop (length ''RELEVANT:'') response), True)"
    if h: "openai_reply w content topic response \<and> prefix ''RELEVANT:'' response"
  proof -
    from h have "\<not> prefix ''NOT_RELEVANT'' response" by (auto simp: prefix_def)
    with h processWithOpenAI_reply[of w content topic response] show ?thesis by simp
  qed
  show "processWithOpenAI w content topic = (content, True)"
    if "openai_reply w content topic response \<and> \<not> prefix ''NOT_RELEVANT'' response
        \<and> \<not> prefix ''RELEVANT:'' response"
    using that processWithOpenAI_reply[of w content topic response] by simp
  show "processWithOpenAI w content topic = (content, True)"
    if "getenv w ''OPENAI_API_KEY'' = []"
    using that by (simp add: processWithOpenAI_def)
  show "processWithOpenAI w content topic = (content, True)"
    if "\<not> (\<exists>r. openai_reply w content topic r)"
    using that by (rule processWithOpenAI_no_reply)
  show "processWithOpenAI w content topic = (content, True)"
    if h: "(\<forall>req. isl (http_Do w req)) \<or> (\<forall>body. isl (json_Unmarshal_OpenAI w body))"
  proof (rule processWithOpenAI_no_reply)
    show "\<not> (\<exists>r. openai_reply w content topic r)"
    proof
      assume "\<exists>r. openai_reply w content topic r"
      then obtain req resp body openaiResp where
        "http_Do w req = Inr resp" "json_Unmarshal_OpenAI w body = Inr openaiResp"
        unfolding openai_reply_def by blast
      with h show False by (metis sum.disc(2))
    qed
  qed
next
  assume a: "(if Link item \<noteq> [] then extractContent w cfg (Link item) (Some (client_Get w))
         else Inr []) = Inr webContent
        \<and> focus cfg \<noteq> [] \<and> contentToProcess item webContent \<noteq> []"
  {
    assume "snd (processWithOpenAI w (contentToProcess item webContent) (focus cfg)) = False"
    with a show "printItem w cfg feedURL item channelTitle = Inr []"
      by (simp add: printItem_suppressed)
  }
  {
    assume "processWithOpenAI w (contentToProcess item webContent) (focus cfg) = (processed, True)
               \<and> processed \<noteq> [] \<and> \<not> fullOutput cfg \<and> \<not> authored cfg"
    with a show "printItem w cfg feedURL item channelTitle =
                   Inr ((if parseDate (time_Local w) (PubDate item) \<noteq> []
                         then parseDate (time_Local w) (PubDate item) @ '' '' else [])
                        @ processed @ ''\<newline>\<newline>'')"
      by (simp add: printItem_compact_processed)
  }
qed

theorem relevance_classification_witness:
  "processWithOpenAI (openai_world ''NOT_RELEVANT'') ''One'' ''ai'' = ([], False)
   \<and> processWithOpenAI (openai_world ''RELEVANT:  short news '') ''One'' ''ai''
       = (''short news'', True)
   \<and> processWithOpenAI (openai_world ''Maybe'') ''One'' ''ai'' = (''One'', True)
   \<and> processWithOpenAI offline_world ''One'' ''ai'' = (''One'', True)
   \<and> printItem (openai_world ''NOT_RELEVANT'') focus_config ''http://feed/rss.xml'' item1 ''News''
       = Inr []
   \<and> printItem (openai_world ''RELEVANT:  short news '') focus_config ''http://feed/rss.xml''
        item1 ''News''
       = Inr ''15-03-2023 short news\<newline>\<newline>''"
proof -
  note T = relevance_classification
  have p1: "prefix ''NOT_RELEVANT'' ''NOT_RELEVANT''" by simp
  have p2: "prefix ''RELEVANT:'' ''RELEVANT:  short news ''" by simp
  have t2: "TrimSpace (drop (length ''RELEVANT:'') ''RELEVANT:  short news '') = ''short news''"
    by code_simp
  have p3: "\<not> prefix ''NOT_RELEVANT'' ''Maybe'' \<and> \<not> prefix ''RELEVANT:'' ''Maybe''" by simp
  have k: "getenv offline_world ''OPENAI_API_KEY'' = []" by (simp add: offline_world_def)
  from T[where w = "openai_world ''NOT_RELEVANT''" and content = "''One''" and topic = "''ai''"
      and response = "''NOT_RELEVANT''"] openai_world_reply p1
  have 1: "processWithOpenAI (openai_world ''NOT_RELEVANT'') ''One'' ''ai'' = ([], False)"
    by blast
  from T[where w = "openai_world ''RELEVANT:  short news ''" and content = "''One''"
      and topic = "''ai''" and response = "''RELEVANT:  short news ''"] openai_world_reply p2
  have "processWithOpenAI (openai_world ''RELEVANT:  short news '') ''One'' ''ai''
      = (TrimSpace (drop (length ''RELEVANT:'') ''RELEVANT:  short news ''), True)"
    by blast
  then have 2: "processWithOpenAI (openai_world ''RELEVANT:  short news '') ''One'' ''ai''
       = (''short news'', True)"
    by (simp only: t2)
  from T[where w = "openai_world ''Maybe''" and content = "''One''" and topic = "''ai''"
      and response = "''Maybe''"] openai_world_reply p3
  have 3: "processWithOpenAI (openai_world ''Maybe'') ''One'' ''ai'' = (''One'', True)"
    by blast
  from T[where w = offline_world and content = "''One''" and topic = "''ai''"] k
  have 4: "processWithOpenAI offline_world ''One'' ''ai'' = (''One'', True)"
    by blast
  have web: "(if Link item1 \<noteq> []
        then extractContent (openai_world r) focus_config (Link item1)
               (Some (client_Get (openai_world r)))
        else Inr []) = Inr []" for r
    by (simp add: item1_def extractContent_def extractBasicContent_def openai_world_def
        offline_world_def)
  have c: "focus focus_config \<noteq> [] \<and> contentToProcess item1 [] \<noteq> []
      \<and> contentToProcess item1 [] = ''One'' \<and> focus focus_config = ''ai''
      \<and> \<not> fullOutput focus_config \<and> \<not> authored focus_config"
    by code_simp
  have d: "(if parseDate (time_Local (openai_world ''RELEVANT:  short news ''))
                (PubDate item1) \<noteq> []
            then parseDate (time_Local (openai_world ''RELEVANT:  short news ''))
                   (PubDate item1) @ '' '' else [])
      @ ''short news'' @ ''\<newline>\<newline>'' = ''15-03-2023 short news\<newline>\<newline>''"
    by code_simp
  from 1 c have s5: "snd (processWithOpenAI (openai_world ''NOT_RELEVANT'')
      (contentToProcess item1 []) (focus focus_config)) = False"
    by simp
  from T[where w = "openai_world ''NOT_RELEVANT''" and cfg = focus_config and item = item1
      and webContent = "[]" and feedURL = "''http://feed/rss.xml''" and channelTitle = "''News''"]
    web c s5
  have 5: "printItem (openai_world ''NOT_RELEVANT'') focus_config ''http://feed/rss.xml'' item1
      ''News'' = Inr []"
    by blast
  from 2 c have s6: "processWithOpenAI (openai_world ''RELEVANT:  short news '')
      (contentToProcess item1 []) (focus focus_config) = (''short news'', True)
      \<and> ''short news'' \<noteq> []"
    by simp
  from T[where w = "openai_world ''RELEVANT:  short news ''" and cfg = focus_config
      and item = item1 and webContent = "[]" and feedURL = "''http://feed/rss.xml''"
      and channelTitle = "''News''" and processed = "''short news''"]
    web c s6
  have "printItem (openai_world ''RELEVANT:  short news '') focus_config ''http://feed/rss.xml''
        item1 ''News''
      = Inr ((if parseDate (time_Local (openai_world ''RELEVANT:  short news ''))
                   (PubDate item1) \<noteq> []
              then parseDate (time_Local (openai_world ''RELEVANT:  short news ''))
                     (PubDate item1) @ '' '' else [])
             @ ''short news'' @ ''\<newline>\<newline>'')"
    by blast
  then have 6: "printItem (openai_world ''RELEVANT:  short news '') focus_config
      ''http://feed/rss.xml'' item1 ''News'' = Inr ''15-03-2023 short news\<newline>\<newline>''"
    by (simp only: d)
  from 1 2 3 4 5 6 show ?thesis by blast
qed

text \<open>
  Claim C5.  \<open>charsetReader\<close> matches the label in lower case: for \<open>utf-8\<close> and the
  empty label it returns its input, for a label of the allow-list a reader that decodes
  with the character set of that label, and for any other label the error that names the
  label, in lower case.  Labels of ASCII bytes that differ in case only get the same
  result.
\<close>

theorem charsetReader_contract:
  "(ToLower ul label = ''utf-8'' \<or> ToLower ul label = [] \<longrightarrow>
      charsetReader ul label input = Inr input)
   \<and> (map_of allow_list (ToLower ul label) = Some cm \<longrightarrow>
      charsetReader ul label input = Inr (TransformReader input cm))
   \<and> (ToLower ul label \<noteq> ''utf-8'' \<and> ToLower ul label \<noteq> []
      \<and> map_of allow_list (ToLower ul label) = None \<longrightarrow>
      charsetReader ul label input = Inl (''unsupported charset: '' @ ToLower ul label))
   \<and> (list_all (\<lambda>c. (of_char c :: nat) < 128) label \<longrightarrow>
      ToLower ul label = map ascii_lower label)
   \<and> (list_all (\<lambda>c. (of_char c :: nat) < 128) label
      \<and> list_all (\<lambda>c. (of_char c :: nat) < 128) label'
      \<and> map ascii_lower label = map ascii_lower label' \<longrightarrow>
      charsetReader ul label input = charsetReader ul label' input)"
proof (intro conjI impI)
  show "charsetReader ul label input = Inr input"
    if "ToLower ul label = ''utf-8'' \<or> ToLower ul label = []"
    using that by (auto simp: charsetReader_def)
  show "charsetReader ul label input = Inr (TransformReader input cm)"
    if "map_of allow_list (ToLower ul label) = Some cm"
    using that by (rule charsetReader_table)
  show "charsetReader ul label input = Inl (''unsupported charset: '' @ ToLower ul label)"
    if "ToLower ul label \<noteq> ''utf-8'' \<and> ToLower ul label \<noteq> []
      \<and> map_of allow_list (ToLower ul label) = None"
    using that by (simp add: charsetReader_other)
  show "ToLower ul label = map ascii_lower label"
    if "list_all (\<lambda>c. (of_char c :: nat) < 128) label"
    using that by (simp add: ToLower_def)
  show "charsetReader ul label input = charsetReader ul label' input"
    if "list_all (\<lambda>c. (of_char c :: nat) < 128) label
      \<and> list_all (\<lambda>c. (of_char c :: nat) < 128) label'
      \<and> map ascii_lower label = map ascii_lower label'"
    using that by (simp add: charsetReader_def ToLower_def)
qed

theorem charsetReader_contract_witness:
  "charsetReader id ''UTF-8'' (BytesReader ''x'') = Inr (BytesReader ''x'')
   \<and> charsetReader id ''KOI8-R'' (BytesReader ''x'') = Inr (TransformReader (BytesReader ''x'') KOI8R)
   \<and> charsetReader id ''Shift_JIS'' (BytesReader ''x'') = Inl ''unsupported charset: shift_jis''
   \<and> charsetReader id ''Latin1'' (BytesReader ''x'') = charsetReader id ''LATIN1'' (BytesReader ''x'')"
proof -
  have l1: "ToLower id ''UTF-8'' = ''utf-8''" by code_simp
  have l2: "map_of allow_list (ToLower id ''KOI8-R'') = Some KOI8R" by code_simp
  have l3: "ToLower id ''Shift_JIS'' \<noteq> ''utf-8'' \<and> ToLower id ''Shift_JIS'' \<noteq> []
      \<and> map_of allow_list (ToLower id ''Shift_JIS'') = None" by code_simp
  have l3': "''unsupported charset: '' @ ToLower id ''Shift_JIS''
      = ''unsupported charset: shift_jis''" by code_simp
  have l4: "list_all (\<lambda>c. (of_char c :: nat) < 128) ''Latin1''
      \<and> list_all (\<lambda>c. (of_char c :: nat) < 128) ''LATIN1''
      \<and> map ascii_lower ''Latin1'' = map ascii_lower ''LATIN1''" by code_simp
  from charsetReader_contract[of id "''UTF-8''" "BytesReader ''x''"] l1
  have 1: "charsetReader id ''UTF-8'' (BytesReader ''x'') = Inr (BytesReader ''x'')" by blast
  from charsetReader_contract[of id "''KOI8-R''" "BytesReader ''x''" KOI8R] l2
  have 2: "charsetReader id ''KOI8-R'' (BytesReader ''x'')
      = Inr (TransformReader (BytesReader ''x'') KOI8R)" by blast
  from charsetReader_contract[of id "''Shift_JIS''" "BytesReader ''x''"] l3
  have "charsetReader id ''Shift_JIS'' (BytesReader ''x'')
      = Inl (''unsupported charset: '' @ ToLower id ''Shift_JIS'')" by blast
  then have 3: "charsetReader id ''Shift_JIS'' (BytesReader ''x'')
      = Inl ''unsupported charset: shift_jis''" by (simp only: l3')
  from charsetReader_contract[of id "''Latin1''" "BytesReader ''x''" _ "''LATIN1''"] l4
  have 4: "charsetReader id ''Latin1'' (BytesReader ''x'')
      = charsetReader id ''LATIN1'' (BytesReader ''x'')" by blast
  from 1 2 3 4 show ?thesis by blast
qed

text \<open>
  Claim C6, amended.  For a configured maximum length that is not negative, a text of more
  bytes than the maximum is cut to exactly that many bytes followed by \<open>...\<close>, and a
  text of at most that many bytes is returned as it is; this holds for the text that
  \<open>extractMainText\<close> extracts from a page, which is what \<open>extractBasicContent\<close> returns
  for a page fetched with status 200, and for the text of the first article that the
  extraction service returns.  The program measures and cuts with Go's \<open>len\<close> and slice
  expression, which count bytes.
\<close>

theorem truncation_rule:
  "0 \<le> maxLength cfg \<longrightarrow>
     (int (length (mainContent html)) > maxLength cfg \<longrightarrow>
        extractMainText cfg html = Inr (take (nat (maxLength cfg)) (mainContent html) @ ''...'')
        \<and> length (take (nat (maxLength cfg)) (mainContent html)) = nat (maxLength cfg))
   \<and> (int (length (mainContent html)) \<le> maxLength cfg \<longrightarrow>
        extractMainText cfg html = Inr (mainContent html))
   \<and> (httpClient link = Inr page \<and> StatusCode page = 200 \<and> Body page = Inr html \<longrightarrow>
        extractBasicContent cfg link httpClient = extractMainText cfg html)
   \<and> (getenv w ''DIFFBOT_TOKEN'' \<noteq> []
        \<and> httpClient (''https://api.diffbot.com/v3/article?token='' @ getenv w ''DIFFBOT_TOKEN''
                        @ ''&url='' @ url_QueryEscape w link) = Inr resp
        \<and> StatusCode resp = 200 \<and> Body resp = Inr body
        \<and> json_Unmarshal_Diffbot w body = Inr diffbotResp
        \<and> Objects diffbotResp = article # others \<longrightarrow>
        (int (length (Article_Text article)) > maxLength cfg \<longrightarrow>
           extractContent w cfg link (Some httpClient)
             = Inr (take (nat (maxLength cfg)) (Article_Text article) @ ''...'')
           \<and> length (take (nat (maxLength cfg)) (Article_Text article)) = nat (maxLength cfg))
        \<and> (int (length (Article_Text article)) \<le> maxLength cfg \<longrightarrow>
           extractContent w cfg link (Some httpClient) = Inr (Article_Text article)))"
  by (auto simp: extractMainText_def extractBasicContent_def extractContent_def)

theorem truncation_rule_witness:
  "extractMainText focus_config ''<p>Hello world</p>'' = Inr ''Hello...''
   \<and> extractMainText focus_config ''<p>Hello</p>'' = Inr ''Hello''
   \<and> extractBasicContent focus_config ''http://feed/rss.xml''
        (client_Get (feed_world ''News'' [])) = Inr []
   \<and> extractContent (diffbot_world ''Lorem ipsum'') focus_config ''http://feed/1''
        (Some (client_Get (diffbot_world ''Lorem ipsum''))) = Inr ''Lorem...''
   \<and> extractContent (diffbot_world ''Lorem'') focus_config ''http://feed/1''
        (Some (client_Get (diffbot_world ''Lorem''))) = Inr ''Lorem''"
proof -
  note T = truncation_rule
  have m: "0 \<le> maxLength focus_config" by (simp add: focus_config_def)
  have a: "int (length (mainContent ''<p>Hello world</p>'')) > maxLength focus_config
      \<and> take (nat (maxLength focus_config)) (mainContent ''<p>Hello world</p>'') @ ''...''
          = ''Hello...''"
    by code_simp
  have b: "int (length (mainContent ''<p>Hello</p>'')) \<le> maxLength focus_config
      \<and> mainContent ''<p>Hello</p>'' = ''Hello''"
    by code_simp
  have c: "client_Get (feed_world ''News'' []) ''http://feed/rss.xml''
        = Inr \<lparr>StatusCode = 200, Status = ''200 OK'', Body = Inr ''<rss/>''\<rparr>
      \<and> StatusCode \<lparr>StatusCode = 200, Status = ''200 OK'', Body = Inr ''<rss/>''\<rparr> = 200
      \<and> Body \<lparr>StatusCode = 200, Status = ''200 OK'', Body = Inr ''<rss/>''\<rparr> = Inr ''<rss/>''"
    by (simp add: feed_world_def offline_world_def)
  have c': "extractMainText focus_config ''<rss/>'' = Inr []" by code_simp
  have d: "getenv (diffbot_world t) ''DIFFBOT_TOKEN'' \<noteq> []
      \<and> client_Get (diffbot_world t)
           (''https://api.diffbot.com/v3/article?token=''
              @ getenv (diffbot_world t) ''DIFFBOT_TOKEN''
              @ ''&url='' @ url_QueryEscape (diffbot_world t) ''http://feed/1'')
          = Inr \<lparr>StatusCode = 200, Status = ''200 OK'', Body = Inr ''{}''\<rparr>
      \<and> StatusCode \<lparr>StatusCode = 200, Status = ''200 OK'', Body = Inr ''{}''\<rparr> = 200
      \<and> Body \<lparr>StatusCode = 200, Status = ''200 OK'', Body = Inr ''{}''\<rparr> = Inr ''{}''
      \<and> json_Unmarshal_Diffbot (diffbot_world t) ''{}''
          = Inr \<lparr>Objects = [\<lparr>Article_Title = [], Article_Text = t,
                              Article_HTML = [], Article_Date = []\<rparr>]\<rparr>
      \<and> Objects \<lparr>Objects = [\<lparr>Article_Title = [], Article_Text = t,
                              Article_HTML = [], Article_Date = []\<rparr>]\<rparr>
          = \<lparr>Article_Title = [], Article_Text = t, Article_HTML = [], Article_Date = []\<rparr> # []"
    for t
    by (simp add: diffbot_world_def offline_world_def)
  have e: "int (length ''Lorem ipsum'') > maxLength focus_config
      \<and> take (nat (maxLength focus_config)) ''Lorem ipsum'' @ ''...'' = ''Lorem...''
      \<and> int (length ''Lorem'') \<le> maxLength focus_config"
    by code_simp
  from T[where cfg = focus_config and html = "''<p>Hello world</p>''"] m a
  have "extractMainText focus_config ''<p>Hello world</p>''
      = Inr (take (nat (maxLength focus_config)) (mainContent ''<p>Hello world</p>'') @ ''...'')"
    by blast
  with a have 1: "extractMainText focus_config ''<p>Hello world</p>'' = Inr ''Hello...''"
    by (simp only:)
  from T[where cfg = focus_config and html = "''<p>Hello</p>''"] m b
  have "extractMainText focus_config ''<p>Hello</p>'' = Inr (mainContent ''<p>Hello</p>'')"
    by blast
  with b have 2: "extractMainText focus_config ''<p>Hello</p>'' = Inr ''Hello''"
    by (simp only:)
  from T[where cfg = focus_config and httpClient = "client_Get (feed_world ''News'' [])"
      and link = "''http://feed/rss.xml''" and html = "''<rss/>''"
      and page = "\<lparr>StatusCode = 200, Status = ''200 OK'', Body = Inr ''<rss/>''\<rparr>"] m c
  have "extractBasicContent focus_config ''http://feed/rss.xml''
        (client_Get (feed_world ''News'' [])) = extractMainText focus_config ''<rss/>''"
    by blast
  with c' have 3: "extractBasicContent focus_config ''http://feed/rss.xml''
        (client_Get (feed_world ''News'' [])) = Inr []"
    by (simp only:)
  from T[where cfg = focus_config and w = "diffbot_world ''Lorem ipsum''"
      and httpClient = "client_Get (diffbot_world ''Lorem ipsum'')" and link = "''http://feed/1''"
      and resp = "\<lparr>StatusCode = 200, Status = ''200 OK'', Body = Inr ''{}''\<rparr>"
      and body = "''{}''"
      and diffbotResp = "\<lparr>Objects = [\<lparr>Article_Title = [], Article_Text = ''Lorem ipsum'',
                              Article_HTML = [], Article_Date = []\<rparr>]\<rparr>"
      and article = "\<lparr>Article_Title = [], Article_Text = ''Lorem ipsum'',
                              Article_HTML = [], Article_Date = []\<rparr>"
      and others = "[]"] m d[of "''Lorem ipsum''"] e
  have 4: "extractContent (diffbot_world ''Lorem ipsum'') focus_config ''http://feed/1''
        (Some (client_Get (diffbot_world ''Lorem ipsum''))) = Inr ''Lorem...''"
    by simp
  from T[where cfg = focus_config and w = "diffbot_world ''Lorem''"
      and httpClient = "client_Get (diffbot_world ''Lorem'')" and link = "''http://feed/1''"
      and resp = "\<lparr>StatusCode = 200, Status = ''200 OK'', Body = Inr ''{}''\<rparr>"
      and body = "''{}''"
      and diffbotResp = "\<lparr>Objects = [\<lparr>Article_Title = [], Article_Text = ''Lorem'',
                              Article_HTML = [], Article_Date = []\<rparr>]\<rparr>"
      and article = "\<lparr>Article_Title = [], Article_Text = ''Lorem'',
                              Article_HTML = [], Article_Date = []\<rparr>"
      and others = "[]"] m d[of "''Lorem''"] e
  have 5: "extractContent (diffbot_world ''Lorem'') focus_config ''http://feed/1''
        (Some (client_Get (diffbot_world ''Lorem''))) = Inr ''Lorem''"
    by simp
  from 1 2 3 4 5 show ?thesis by blast
qed

text \<open>
  Claim C6 as stated, in characters, fails on text outside ASCII.  With the maximum 1, a
  text of three characters in five bytes is cut after its first byte, in the middle of its
  first character; with the maximum 2, a text of two characters in four bytes is at the
  maximum and is cut all the same.
\<close>

theorem truncation_rule_counterexample:
  "int (length (characters (mainContent
       (''<p>'' @ [CHR 0xC3, CHR 0xA9, CHR ''t'', CHR 0xC3, CHR 0xA9] @ ''</p>''))))
     > maxLength \<lparr>fullOutput = False, authored = False, maxLength = 1, focus = []\<rparr>
   \<and> extractMainText \<lparr>fullOutput = False, authored = False, maxLength = 1, focus = []\<rparr>
        (''<p>'' @ [CHR 0xC3, CHR 0xA9, CHR ''t'', CHR 0xC3, CHR 0xA9] @ ''</p>'')
       = Inr ([CHR 0xC3] @ ''...'')
   \<and> extractMainText \<lparr>fullOutput = False, authored = False, maxLength = 1, focus = []\<rparr>
        (''<p>'' @ [CHR 0xC3, CHR 0xA9, CHR ''t'', CHR 0xC3, CHR 0xA9] @ ''</p>'')
       \<noteq> Inr (concat (take 1 (characters (mainContent
            (''<p>'' @ [CHR 0xC3, CHR 0xA9, CHR ''t'', CHR 0xC3, CHR 0xA9] @ ''</p>'')))) @ ''...'')
   \<and> int (length (characters (mainContent
       (''<p>'' @ [CHR 0xC3, CHR 0xA9, CHR 0xC3, CHR 0xA9] @ ''</p>''))))
     \<le> maxLength \<lparr>fullOutput = False, authored = False, maxLength = 2, focus = []\<rparr>
   \<and> extractMainText \<lparr>fullOutput = False, authored = False, maxLength = 2, focus = []\<rparr>
        (''<p>'' @ [CHR 0xC3, CHR 0xA9, CHR 0xC3, CHR 0xA9] @ ''</p>'')
       = Inr ([CHR 0xC3, CHR 0xA9] @ ''...'')
   \<and> extractMainText \<lparr>fullOutput = False, authored = False, maxLength = 2, focus = []\<rparr>
        (''<p>'' @ [CHR 0xC3, CHR 0xA9, CHR 0xC3, CHR 0xA9] @ ''</p>'')
       \<noteq> Inr (mainContent (''<p>'' @ [CHR 0xC3, CHR 0xA9, CHR 0xC3, CHR 0xA9] @ ''</p>''))"
  by code_simp

text \<open>
  Claim C7, amended.  In the compact layout with the channel name on, for a non-empty
  channel title, a line that is written ends with the bracketed host of the feed URL when
  the title contains more than two spaces, and with the bracketed title otherwise.  The
  host is the one \<open>url.Parse\<close> finds; when the URL does not parse, \<open>hostname\<close> is the
  URL itself.
\<close>

theorem channel_suffix_choice:
  "(printItem w cfg feedURL item channelTitle = Inr out \<and> out \<noteq> []
      \<and> \<not> fullOutput cfg \<and> authored cfg \<and> channelTitle \<noteq> []
    \<longrightarrow> suffix (''['' @ (if Count_byte channelTitle (CHR '' '') > 2 then hostname w feedURL
                         else channelTitle) @ '']\<newline>\<newline>'') out)
   \<and> (url_Parse w feedURL = Inr u \<longrightarrow> hostname w feedURL = Host u)
   \<and> (url_Parse w feedURL = Inl err \<longrightarrow> hostname w feedURL = feedURL)"
proof (intro conjI impI)
  assume a: "printItem w cfg feedURL item channelTitle = Inr out \<and> out \<noteq> []
      \<and> \<not> fullOutput cfg \<and> authored cfg \<and> channelTitle \<noteq> []"
  let ?name = "if Count_byte channelTitle (CHR '' '') > 2 then hostname w feedURL
               else channelTitle"
  from a have "\<exists>pre. out = pre @ ''['' @ ?name @ '']\<newline>\<newline>''"
    unfolding printItem_def
    by (auto simp: case_prod_beta split: sum.splits if_splits)
  then show "suffix (''['' @ ?name @ '']\<newline>\<newline>'') out"
    by (auto simp: suffix_def)
qed (simp_all add: hostname_def)

theorem channel_suffix_choice_witness:
  "suffix ''[example.com]\<newline>\<newline>''
     (projr (printItem (feed_world ''News'' [item1]) compact_config ''http://feed/rss.xml''
        item1 ''The Very Daily News''))
   \<and> suffix ''[Daily News]\<newline>\<newline>''
     (projr (printItem (feed_world ''News'' [item1]) compact_config ''http://feed/rss.xml''
        item1 ''Daily News''))
   \<and> hostname (feed_world ''News'' [item1]) ''http://feed/rss.xml'' = ''example.com''"
proof -
  note T = channel_suffix_choice
  let ?w = "feed_world ''News'' [item1]"
  have a: "printItem ?w compact_config ''http://feed/rss.xml'' item1 ''The Very Daily News''
        = Inr ''15-03-2023 One [example.com]\<newline>\<newline>''
      \<and> ''15-03-2023 One [example.com]\<newline>\<newline>'' \<noteq> []
      \<and> \<not> fullOutput compact_config \<and> authored compact_config
      \<and> ''The Very Daily News'' \<noteq> []"
    by code_simp
  have a': "''['' @ (if Count_byte ''The Very Daily News'' (CHR '' '') > 2
                     then hostname ?w ''http://feed/rss.xml'' else ''The Very Daily News'')
            @ '']\<newline>\<newline>'' = ''[example.com]\<newline>\<newline>''"
    by code_simp
  have b: "printItem ?w compact_config ''http://feed/rss.xml'' item1 ''Daily News''
        = Inr ''15-03-2023 One [Daily News]\<newline>\<newline>''
      \<and> ''15-03-2023 One [Daily News]\<newline>\<newline>'' \<noteq> []
      \<and> \<not> fullOutput compact_config \<and> authored compact_config
      \<and> ''Daily News'' \<noteq> []"
    by code_simp
  have b': "''['' @ (if Count_byte ''Daily News'' (CHR '' '') > 2
                     then hostname ?w ''http://feed/rss.xml'' else ''Daily News'')
            @ '']\<newline>\<newline>'' = ''[Daily News]\<newline>\<newline>''"
    by code_simp
  have u: "url_Parse ?w ''http://feed/rss.xml'' = Inr \<lparr>Host = ''example.com''\<rparr>"
    by (simp add: feed_world_def offline_world_def)
  from T[where w = ?w and cfg = compact_config and feedURL = "''http://feed/rss.xml''"
      and item = item1 and channelTitle = "''The Very Daily News''"
      and out = "''15-03-2023 One [example.com]\<newline>\<newline>''"] a
  have "suffix (''['' @ (if Count_byte ''The Very Daily News'' (CHR '' '') > 2
                     then hostname ?w ''http://feed/rss.xml'' else ''The Very Daily News'')
            @ '']\<newline>\<newline>'') ''15-03-2023 One [example.com]\<newline>\<newline>''"
    by blast
  then have 1: "suffix ''[example.com]\<newline>\<newline>''
     (projr (printItem ?w compact_config ''http://feed/rss.xml'' item1 ''The Very Daily News''))"
    using a by (simp only: a' sum.sel)
  from T[where w = ?w and cfg = compact_config and feedURL = "''http://feed/rss.xml''"
      and item = item1 and channelTitle = "''Daily News''"
      and out = "''15-03-2023 One [Daily News]\<newline>\<newline>''"] b
  have "suffix (''['' @ (if Count_byte ''Daily News'' (CHR '' '') > 2
                     then hostname ?w ''http://feed/rss.xml'' else ''Daily News'')
            @ '']\<newline>\<newline>'') ''15-03-2023 One [Daily News]\<newline>\<newline>''"
    by blast
  then have 2: "suffix ''[Daily News]\<newline>\<newline>''
     (projr (printItem ?w compact_config ''http://feed/rss.xml'' item1 ''Daily News''))"
    using b by (simp only: b' sum.sel)
  from T[where w = ?w and feedURL = "''http://feed/rss.xml''"
      and u = "\<lparr>Host = ''example.com''\<rparr>"] u
  have 3: "hostname ?w ''http://feed/rss.xml'' = ''example.com''"
    by simp
  from 1 2 3 show ?thesis by blast
qed

text \<open>
  Claim C7 as stated fails for a title of three words: it has more than two
  space-separated words but only two spaces, and the suffix shows the title.
\<close>

theorem channel_suffix_choice_counterexample:
  "length (space_separated_words ''The Daily News'') > 2
   \<and> printItem (feed_world ''The Daily News'' [item1]) compact_config ''http://feed/rss.xml''
        item1 ''The Daily News''
       = Inr ''15-03-2023 One [The Daily News]\<newline>\<newline>''
   \<and> hostname (feed_world ''The Daily News'' [item1]) ''http://feed/rss.xml'' = ''example.com''"
  by code_simp

text \<open>
  Claim C8.  \<open>parseDate\<close> maps \<open>Mon, 15 Mar 2023 10:30:00 GMT\<close> to \<open>15-03-2023\<close>
  in a process whose time zone does not know the abbreviation GMT (as UTC), and in one
  whose time zone has GMT at offset zero and is, at that instant, less than 13 hours 30
  minutes ahead of UTC and at most 10 hours 30 minutes behind (as Europe/London).  In every
  time zone it maps the empty string to itself, returns a date that no layout parses as it
  is, and otherwise returns the day, month and year of the time that the first layout, in
  the order of the list, parses the date to.
\<close>

theorem parseDate_contract:
  "(list_all (\<lambda>z. fst z \<noteq> ''GMT'') (Location_zone local)
      \<longrightarrow> parseDate local ''Mon, 15 Mar 2023 10:30:00 GMT'' = ''15-03-2023'')
   \<and> (list_all (\<lambda>z. fst z = ''GMT'' \<longrightarrow> snd z = 0) (Location_zone local)
        \<and> (\<forall>u. fst (Location_lookup local u) = ''GMT'' \<longrightarrow> snd (Location_lookup local u) = 0)
        \<and> - 37800 \<le> snd (Location_lookup local 1678876200)
        \<and> snd (Location_lookup local 1678876200) < 48600
      \<longrightarrow> parseDate local ''Mon, 15 Mar 2023 10:30:00 GMT'' = ''15-03-2023'')
   \<and> parseDate local [] = []
   \<and> (pubDate \<noteq> [] \<and> list_all (\<lambda>layout. time_Parse local layout pubDate = None) layouts
        \<longrightarrow> parseDate local pubDate = pubDate)
   \<and> (pubDate \<noteq> [] \<and> layouts = before @ layout # after
        \<and> list_all (\<lambda>layout. time_Parse local layout pubDate = None) before
        \<and> time_Parse local layout pubDate = Some t
        \<longrightarrow> parseDate local pubDate = Format_DD_MM_YYYY t)"
proof (intro conjI impI)
  let ?ex = "''Mon, 15 Mar 2023 10:30:00 GMT''"
  show "parseDate local ?ex = ''15-03-2023''"
    if "list_all (\<lambda>z. fst z \<noteq> ''GMT'') (Location_zone local)"
  proof -
    from that have "lookupName local ''GMT'' 1678876200 = None" by (rule lookupName_absent)
    then have "time_Parse local RFC1123 ?ex = Some \<lparr>unixSec = 1678876200, zone_offset = 0\<rparr>"
      by (simp add: time_Parse_example)
    from parseDate_example[OF this] show ?thesis by (simp add: Format_example)
  qed
  show "parseDate local ?ex = ''15-03-2023''"
    if h: "list_all (\<lambda>z. fst z = ''GMT'' \<longrightarrow> snd z = 0) (Location_zone local)
        \<and> (\<forall>u. fst (Location_lookup local u) = ''GMT'' \<longrightarrow> snd (Location_lookup local u) = 0)
        \<and> - 37800 \<le> snd (Location_lookup local 1678876200)
        \<and> snd (Location_lookup local 1678876200) < 48600"
  proof -
    from h have "lookupName local ''GMT'' 1678876200 = None
        \<or> lookupName local ''GMT'' 1678876200 = Some 0"
      by (intro lookupName_zero) auto
    then show ?thesis
    proof
      assume "lookupName local ''GMT'' 1678876200 = None"
      then have "time_Parse local RFC1123 ?ex = Some \<lparr>unixSec = 1678876200, zone_offset = 0\<rparr>"
        by (simp add: time_Parse_example)
      from parseDate_example[OF this] show ?thesis by (simp add: Format_example)
    next
      assume "lookupName local ''GMT'' 1678876200 = Some 0"
      then have "time_Parse local RFC1123 ?ex =
          Some \<lparr>unixSec = 1678876200, zone_offset = snd (Location_lookup local 1678876200)\<rparr>"
        by (simp add: time_Parse_example)
      from parseDate_example[OF this] h show ?thesis by (simp add: Format_example)
    qed
  qed
  show "parseDate local [] = []"
    by (simp add: parseDate_def)
  show "parseDate local pubDate = pubDate"
    if "pubDate \<noteq> [] \<and> list_all (\<lambda>layout. time_Parse local layout pubDate = None) layouts"
    using that parseDate_loop_skip[of local pubDate layouts "[]"] by (simp add: parseDate_def)
  show "parseDate local pubDate = Format_DD_MM_YYYY t"
    if "pubDate \<noteq> [] \<and> layouts = before @ layout # after
        \<and> list_all (\<lambda>layout. time_Parse local layout pubDate = None) before
        \<and> time_Parse local layout pubDate = Some t"
    using that parseDate_loop_skip[of local pubDate before "layout # after"]
    by (simp add: parseDate_def)
qed

theorem parseDate_contract_witness:
  "parseDate UTC_location ''Mon, 15 Mar 2023 10:30:00 GMT'' = ''15-03-2023''
   \<and> parseDate London_2023 ''Mon, 15 Mar 2023 10:30:00 GMT'' = ''15-03-2023''
   \<and> parseDate London_2023 ''not a valid date'' = ''not a valid date''
   \<and> parseDate London_2023 ''2023-06-15 14:30:00'' = ''15-06-2023''
   \<and> parseDate London_2023 ''Sat, 15 Jul 2023 23:30:00 GMT'' = ''16-07-2023''"
proof -
  note T = parseDate_contract
  let ?t = "\<lparr>unixSec = 1686839400, zone_offset = 0\<rparr>"
  let ?j = "\<lparr>unixSec = 1689463800, zone_offset = 3600\<rparr>"
  have u: "list_all (\<lambda>z. fst z \<noteq> ''GMT'') (Location_zone UTC_location)"
    by (simp add: UTC_location_def)
  have l: "list_all (\<lambda>z. fst z = ''GMT'' \<longrightarrow> snd z = 0) (Location_zone London_2023)
      \<and> (\<forall>u. fst (Location_lookup London_2023 u) = ''GMT''
              \<longrightarrow> snd (Location_lookup London_2023 u) = 0)
      \<and> - 37800 \<le> snd (Location_lookup London_2023 1678876200)
      \<and> snd (Location_lookup London_2023 1678876200) < 48600"
    by (simp add: London_2023_def)
  have a: "''not a valid date'' \<noteq> []
      \<and> list_all (\<lambda>layout. time_Parse London_2023 layout ''not a valid date'' = None) layouts"
    by code_simp
  have b: "''2023-06-15 14:30:00'' \<noteq> []
      \<and> layouts = take 6 layouts @ (layouts ! 6) # drop 7 layouts
      \<and> list_all (\<lambda>layout. time_Parse London_2023 layout ''2023-06-15 14:30:00'' = None)
          (take 6 layouts)
      \<and> time_Parse London_2023 (layouts ! 6) ''2023-06-15 14:30:00'' = Some ?t"
    by code_simp
  have c: "Format_DD_MM_YYYY ?t = ''15-06-2023''" by code_simp
  have d: "''Sat, 15 Jul 2023 23:30:00 GMT'' \<noteq> []
      \<and> layouts = [] @ (layouts ! 0) # drop 1 layouts
      \<and> list_all (\<lambda>layout. time_Parse London_2023 layout ''Sat, 15 Jul 2023 23:30:00 GMT'' = None) []
      \<and> time_Parse London_2023 (layouts ! 0) ''Sat, 15 Jul 2023 23:30:00 GMT'' = Some ?j"
    by code_simp
  have e: "Format_DD_MM_YYYY ?j = ''16-07-2023''" by code_simp
  from T[where local = UTC_location] u
  have 1: "parseDate UTC_location ''Mon, 15 Mar 2023 10:30:00 GMT'' = ''15-03-2023''" by blast
  from T[where local = London_2023] l
  have 2: "parseDate London_2023 ''Mon, 15 Mar 2023 10:30:00 GMT'' = ''15-03-2023''" by blast
  from T[where local = London_2023 and pubDate = "''not a valid date''"] a
  have 3: "parseDate London_2023 ''not a valid date'' = ''not a valid date''" by blast
  from T[where local = London_2023 and pubDate = "''2023-06-15 14:30:00''"
      and before = "take 6 layouts" and layout = "layouts ! 6" and after = "drop 7 layouts"
      and t = ?t] b
  have "parseDate London_2023 ''2023-06-15 14:30:00'' = Format_DD_MM_YYYY ?t" by blast
  with c have 4: "parseDate London_2023 ''2023-06-15 14:30:00'' = ''15-06-2023''"
    by (simp only:)
  from T[where local = London_2023 and pubDate = "''Sat, 15 Jul 2023 23:30:00 GMT''"
      and before = "[]" and layout = "layouts ! 0" and after = "drop 1 layouts" and t = ?j] d
  have "parseDate London_2023 ''Sat, 15 Jul 2023 23:30:00 GMT'' = Format_DD_MM_YYYY ?j" by blast
  with e have 5: "parseDate London_2023 ''Sat, 15 Jul 2023 23:30:00 GMT'' = ''16-07-2023''"
    by (simp only:)
  from 1 2 3 4 5 show ?thesis by blast
qed

end
